theory Spec2Isabelle
  imports Main "HOL-Library.Sublist"
begin

section \<open>The nc command of netro (src/cmd/root.go, second part)\<close>

text \<open>
  The command dials or listens on sockets. Everything it does is an effect, so each Go
  function is embedded as a function from the behaviour of the outside world (what the
  library calls return) to the list of effects the function performs, in program order,
  together with its return value, or with the fact that it never returns. A Go
  \<open>error\<close> is represented by its text (\<open>err.Error()\<close>, what \<open>%v\<close> prints); \<open>nil\<close> is
  \<open>None\<close>.
\<close>

subsection \<open>Data\<close>

type_synonym go_error = string

text \<open>\<open>time.Duration\<close>: a signed count of nanoseconds; the code only passes it on.\<close>

type_synonym duration = int

text \<open>A call that may block for ever either returns a value or never returns.\<close>

datatype 'a outcome = Returns 'a | Blocks

text \<open>A \<open>net.Conn\<close>: a socket, identified by a descriptor, with its peer's address.\<close>

record conn =
  fd :: nat
  RemoteAddr :: string

text \<open>
  \<open>url.URL\<close> and \<open>http.Response\<close>, with what the code uses of them: the fields \<open>Host\<close>,
  \<open>Status\<close> and \<open>StatusCode\<close>, and the call \<open>resp.Body.Close()\<close>. Closing the body of
  a response reads what is left of the body; \<open>Body_Close\<close> is how that call ends: it
  returns, or it waits for ever for a body that the response announced and that the peer
  does not send.
\<close>

record URL =
  Host :: string

record Response =
  Status :: string
  StatusCode :: int
  Body_Close :: "unit outcome"

text \<open>
  The effects, as the calls of the source: \<open>fmt.Printf\<close> on standard output, the socket
  operations of package \<open>net\<close>, \<open>http.ReadResponse\<close> on a connection, the \<open>go\<close>
  statements, and the reads and writes of \<open>io.Copy\<close>.
\<close>

datatype event =
    Printf string
  | DialTimeout string string duration
  | Listen string string
  | ListenPacket string string
  | Accept
  | ConnWrite conn string
  | ReadResponse conn
  | BodyClose conn
  | ConnClose conn
  | ListenerClose
  | PacketConnClose
  | Go_handleTCPConnection conn
  | Go_Copy_conn_Stdin conn
  | ConnRead conn
  | StdoutWrite string
  | ReadFrom
  | WriteTo string string

text \<open>
  What the network operations are: every event that opens, uses or waits on a socket.
  Printing and starting a goroutine are not.
\<close>

fun socket_op :: "event \<Rightarrow> bool" where
  "socket_op (Printf _) = False"
| "socket_op (Go_handleTCPConnection _) = False"
| "socket_op (Go_Copy_conn_Stdin _) = False"
| "socket_op (StdoutWrite _) = False"
| "socket_op _ = True"

text \<open>What \<open>listener.Accept\<close> returns, one entry for each call.\<close>

datatype accept_result = AcceptConn conn | AcceptErr go_error

text \<open>
  What one turn of the datagram loop meets: \<open>Recv payload addr wr\<close> is a datagram
  \<open>payload\<close> sent from \<open>addr\<close>, and \<open>wr\<close> is what the \<open>WriteTo\<close> that answers it
  returns; \<open>RecvErr err\<close> is a failing \<open>ReadFrom\<close>.
\<close>

datatype udp_step = Recv string string "go_error option" | RecvErr go_error

text \<open>
  What one turn of \<open>io.Copy(os.Stdout, conn)\<close> meets: \<open>Chunk bytes wr\<close> is a read of
  \<open>bytes\<close> from the socket, and \<open>wr\<close> is what writing them to standard output
  returns; \<open>ReadEOF\<close> is the peer closing the socket, \<open>ReadErr\<close> a failing read.
\<close>

datatype copy_step = Chunk string "go_error option" | ReadEOF | ReadErr go_error

text \<open>
  The outside world: the results of the library calls the command makes. \<open>peer_bytes c\<close>
  is what the peer of \<open>c\<close> sends on it. \<open>net_http_read\<close> is what the parser of
  package \<open>net/http\<close> makes of these bytes: it waits for ever (the peer is silent and
  keeps the connection open, and the code sets no deadline), or it returns an error, or it
  returns a response, of which the world fixes the status code and the way the closing
  of the body ends.
\<close>

record world =
  url_Parse :: "string \<Rightarrow> go_error + URL"
  net_DialTimeout :: "string \<Rightarrow> string \<Rightarrow> duration \<Rightarrow> go_error + conn"
  conn_Write :: "conn \<Rightarrow> string \<Rightarrow> go_error option"
  peer_bytes :: "conn \<Rightarrow> string"
  net_http_read :: "string \<Rightarrow> (go_error + int \<times> unit outcome) outcome"
  net_Listen :: "string \<Rightarrow> string \<Rightarrow> go_error option"
  accepts :: "accept_result list"
  net_ListenPacket :: "string \<Rightarrow> string \<Rightarrow> go_error option"
  datagrams :: "udp_step list"

subsection \<open>Library functions\<close>

abbreviation CR :: char where "CR \<equiv> CHR 0x0D"
abbreviation LF :: char where "LF \<equiv> CHR 0x0A"

text \<open>
  \<open>net.JoinHostPort\<close>: "host:port", and "[host]:port" when the host contains a colon.
\<close>

definition JoinHostPort :: "string \<Rightarrow> string \<Rightarrow> string" where
  "JoinHostPort host port =
     (if CHR '':'' \<in> set host then ''['' @ host @ '']:'' @ port else host @ '':'' @ port)"

text \<open>
  \<open>strings.TrimSpace\<close>: the string without its leading and its trailing white space, as
  Unicode defines it (\<open>unicode.IsSpace\<close>). A Go string is a sequence of bytes read as
  UTF-8, so the white space is the list of the encodings of the code points that are
  spaces: tab, line feed, vertical tab, form feed, carriage return, space, U+0085, U+00A0,
  U+1680, U+2000 to U+200A, U+2028, U+2029, U+202F, U+205F and U+3000. A byte that starts
  no valid encoding is read as U+FFFD, which is not a space, so trimming stops there. The
  library trims the start first and then the end of what is left.
\<close>

definition white_space :: "string list" where
  "white_space =
     [[CHR 0x09], [LF], [CHR 0x0B], [CHR 0x0C], [CR], [CHR 0x20],
      [CHR 0xC2, CHR 0x85], [CHR 0xC2, CHR 0xA0],
      [CHR 0xE1, CHR 0x9A, CHR 0x80],
      [CHR 0xE2, CHR 0x80, CHR 0x80], [CHR 0xE2, CHR 0x80, CHR 0x81],
      [CHR 0xE2, CHR 0x80, CHR 0x82], [CHR 0xE2, CHR 0x80, CHR 0x83],
      [CHR 0xE2, CHR 0x80, CHR 0x84], [CHR 0xE2, CHR 0x80, CHR 0x85],
      [CHR 0xE2, CHR 0x80, CHR 0x86], [CHR 0xE2, CHR 0x80, CHR 0x87],
      [CHR 0xE2, CHR 0x80, CHR 0x88], [CHR 0xE2, CHR 0x80, CHR 0x89],
      [CHR 0xE2, CHR 0x80, CHR 0x8A],
      [CHR 0xE2, CHR 0x80, CHR 0xA8], [CHR 0xE2, CHR 0x80, CHR 0xA9],
      [CHR 0xE2, CHR 0x80, CHR 0xAF],
      [CHR 0xE2, CHR 0x81, CHR 0x9F],
      [CHR 0xE3, CHR 0x80, CHR 0x80]]"

text \<open>The space a string starts with, and the space it ends with, if any.\<close>

definition space_prefix :: "string \<Rightarrow> string option" where
  "space_prefix s = find (\<lambda>e. prefix e s) white_space"

definition space_suffix :: "string \<Rightarrow> string option" where
  "space_suffix s = find (\<lambda>e. prefix (rev e) (rev s)) white_space"

function trim_left :: "string \<Rightarrow> string" where
  "trim_left s =
     (case space_prefix s of None \<Rightarrow> s | Some e \<Rightarrow> trim_left (drop (length e) s))"
  by pat_completeness auto
termination
proof (relation "measure length")
  show "wf (measure length)" by simp
next
  fix s e assume "space_prefix s = Some e"
  then have "e \<in> set white_space" "prefix e s"
    unfolding space_prefix_def by (auto simp: find_Some_iff)
  then have "e \<noteq> []" "prefix e s" by (auto simp: white_space_def)
  then have "0 < length e" "length e \<le> length s" by (auto simp: prefix_length_le)
  then have "length s - length e < length s" by arith
  then show "(drop (length e) s, s) \<in> measure length" by simp
qed

function trim_right :: "string \<Rightarrow> string" where
  "trim_right s =
     (case space_suffix s of None \<Rightarrow> s
      | Some e \<Rightarrow> trim_right (take (length s - length e) s))"
  by pat_completeness auto
termination
proof (relation "measure length")
  show "wf (measure length)" by simp
next
  fix s e assume "space_suffix s = Some e"
  then have "e \<in> set white_space" "suffix e s"
    unfolding space_suffix_def by (auto simp: find_Some_iff suffix_to_prefix)
  then have "e \<noteq> []" "suffix e s" by (auto simp: white_space_def)
  then have "0 < length e" "length e \<le> length s" by (auto simp: suffix_length_le)
  then have "length s - length e < length s" by arith
  then show "(take (length s - length e) s, s) \<in> measure length" by simp
qed

declare trim_left.simps [simp del] trim_right.simps [simp del]

definition TrimSpace :: "string \<Rightarrow> string" where
  "TrimSpace s = trim_right (trim_left s)"

text \<open>The verb \<open>%d\<close> of package \<open>fmt\<close> on a number that is not negative.\<close>

definition digit :: "nat \<Rightarrow> char" where
  "digit d = ''0123456789'' ! d"

function itoa :: "nat \<Rightarrow> string" where
  "itoa n = (if n < 10 then [digit n] else itoa (n div 10) @ [digit (n mod 10)])"
  by pat_completeness auto
termination
  by (relation "measure id") auto

declare itoa.simps [simp del]

text \<open>
  \<open>http.ReadResponse\<close>. The parser reads the first line of the response, up to the line
  feed and without a carriage return before it, and sets \<open>Status\<close> to what follows the
  first space of that line, without leading spaces: the status line without the protocol
  version, that is the status code and the reason phrase. Whether the parser returns at
  all, the error it returns, the status code and the body are the world's
  (\<open>net_http_read\<close>).
\<close>

definition first_line :: "string \<Rightarrow> string" where
  "first_line bytes =
     (let l = takeWhile (\<lambda>c. c \<noteq> LF) bytes
      in if l \<noteq> [] \<and> last l = CR then butlast l else l)"

definition resp_Status :: "string \<Rightarrow> string" where
  "resp_Status bytes =
     dropWhile (\<lambda>c. c = CHR '' '')
       (drop 1 (dropWhile (\<lambda>c. c \<noteq> CHR '' '') (first_line bytes)))"

definition http_ReadResponse :: "world \<Rightarrow> string \<Rightarrow> (go_error + Response) outcome" where
  "http_ReadResponse w bytes =
     (case net_http_read w bytes of
        Blocks \<Rightarrow> Blocks
      | Returns (Inl err) \<Rightarrow> Returns (Inl err)
      | Returns (Inr (code, body)) \<Rightarrow>
          Returns (Inr \<lparr>Status = resp_Status bytes, StatusCode = code, Body_Close = body\<rparr>))"

subsection \<open>Client mode\<close>

text \<open>
  \<open>executeTCP\<close>: dial, report, and close when the function returns (\<open>defer\<close>). The dial
  has a timeout, so the function always returns.
\<close>

definition executeTCP ::
    "world \<Rightarrow> string \<Rightarrow> duration \<Rightarrow> event list \<times> go_error option outcome" where
  "executeTCP w address timeout =
     (case net_DialTimeout w ''tcp'' address timeout of
        Inl err \<Rightarrow>
          ([DialTimeout ''tcp'' address timeout],
           Returns (Some (''failed to establish TCP connection: '' @ err)))
      | Inr c \<Rightarrow>
          ([DialTimeout ''tcp'' address timeout,
            Printf (''Connected to '' @ address @ '' (TCP)'' @ [LF]),
            ConnClose c],
           Returns None))"

definition executeUDP ::
    "world \<Rightarrow> string \<Rightarrow> duration \<Rightarrow> event list \<times> go_error option outcome" where
  "executeUDP w address timeout =
     (case net_DialTimeout w ''udp'' address timeout of
        Inl err \<Rightarrow>
          ([DialTimeout ''udp'' address timeout],
           Returns (Some (''failed to establish UDP connection: '' @ err)))
      | Inr c \<Rightarrow>
          ([DialTimeout ''udp'' address timeout,
            Printf (''Connected to '' @ address @ '' (UDP)'' @ [LF]),
            ConnClose c],
           Returns None))"

text \<open>The request \<open>executeTCPProxy\<close> formats with \<open>fmt.Sprintf\<close>.\<close>

definition connectReq :: "string \<Rightarrow> string" where
  "connectReq address =
     ''CONNECT '' @ address @ '' HTTP/1.1'' @ [CR, LF] @ ''Host: '' @ address @ [CR, LF, CR, LF]"

text \<open>
  \<open>executeTCPProxy\<close>: each early return of the source is a branch. The code sets no
  deadline on the socket, so a silent proxy keeps it in \<open>http.ReadResponse\<close> for ever.
  The deferred calls run when the function returns, last registered first: the response
  body, then the socket. When the closing of the body never returns, neither the closing
  of the socket nor the return happens.
\<close>

definition executeTCPProxy ::
    "world \<Rightarrow> string \<Rightarrow> duration \<Rightarrow> string \<Rightarrow> event list \<times> go_error option outcome" where
  "executeTCPProxy w address timeout proxyURL =
     (case url_Parse w proxyURL of
        Inl err \<Rightarrow> ([], Returns (Some (''invalid proxy URL: '' @ err)))
      | Inr proxy \<Rightarrow>
         (case net_DialTimeout w ''tcp'' (Host proxy) timeout of
            Inl err \<Rightarrow>
              ([DialTimeout ''tcp'' (Host proxy) timeout],
               Returns (Some (''failed to connect to proxy: '' @ err)))
          | Inr c \<Rightarrow>
             (case conn_Write w c (connectReq address) of
                Some err \<Rightarrow>
                  ([DialTimeout ''tcp'' (Host proxy) timeout,
                    ConnWrite c (connectReq address),
                    ConnClose c],
                   Returns (Some (''failed to send CONNECT request: '' @ err)))
              | None \<Rightarrow>
                 (case http_ReadResponse w (peer_bytes w c) of
                    Blocks \<Rightarrow>
                      ([DialTimeout ''tcp'' (Host proxy) timeout,
                        ConnWrite c (connectReq address),
                        ReadResponse c],
                       Blocks)
                  | Returns (Inl err) \<Rightarrow>
                      ([DialTimeout ''tcp'' (Host proxy) timeout,
                        ConnWrite c (connectReq address),
                        ReadResponse c,
                        ConnClose c],
                       Returns (Some (''failed to read proxy response: '' @ err)))
                  | Returns (Inr resp) \<Rightarrow>
                      if StatusCode resp \<noteq> 200 then
                        (case Body_Close resp of
                           Blocks \<Rightarrow>
                             ([DialTimeout ''tcp'' (Host proxy) timeout,
                               ConnWrite c (connectReq address),
                               ReadResponse c,
                               BodyClose c],
                              Blocks)
                         | Returns u \<Rightarrow>
                             ([DialTimeout ''tcp'' (Host proxy) timeout,
                               ConnWrite c (connectReq address),
                               ReadResponse c,
                               BodyClose c,
                               ConnClose c],
                              Returns (Some (''proxy connection failed: '' @ Status resp))))
                      else
                        (case Body_Close resp of
                           Blocks \<Rightarrow>
                             ([DialTimeout ''tcp'' (Host proxy) timeout,
                               ConnWrite c (connectReq address),
                               ReadResponse c,
                               Printf (''Connected to '' @ address @ '' through HTTP proxy ''
                                         @ proxyURL @ [LF]),
                               BodyClose c],
                              Blocks)
                         | Returns u \<Rightarrow>
                             ([DialTimeout ''tcp'' (Host proxy) timeout,
                               ConnWrite c (connectReq address),
                               ReadResponse c,
                               Printf (''Connected to '' @ address @ '' through HTTP proxy ''
                                         @ proxyURL @ [LF]),
                               BodyClose c,
                               ConnClose c],
                              Returns None))))))"

text \<open>\<open>executeNC\<close>: the dispatch on the protocol string and on the proxy flag.\<close>

definition executeNC ::
    "world \<Rightarrow> string \<Rightarrow> string \<Rightarrow> string \<Rightarrow> duration \<Rightarrow> string
       \<Rightarrow> event list \<times> go_error option outcome"
where
  "executeNC w host port protocol timeout proxy =
     (let address = JoinHostPort host port in
      if protocol = ''tcp'' then
        (if proxy \<noteq> '''' then executeTCPProxy w address timeout proxy
         else executeTCP w address timeout)
      else if protocol = ''udp'' then executeUDP w address timeout
      else ([], Returns (Some (''unsupported protocol: '' @ protocol))))"

subsection \<open>Listen mode\<close>

text \<open>
  \<open>handleUDPConnection\<close>: the loop reads into a buffer of 1024 bytes, so \<open>ReadFrom\<close>
  yields at most that many bytes of a datagram. The loop has two exits, a failing read and
  a failing write; with nothing left to receive it waits in \<open>ReadFrom\<close>.
\<close>

definition buf_size :: nat where
  "buf_size = 1024"

definition received_line :: "string \<Rightarrow> string \<Rightarrow> string" where
  "received_line payload addr =
     (let n = min (length payload) buf_size in
      ''Received '' @ itoa n @ '' bytes from '' @ addr @ '': ''
        @ TrimSpace (take n payload) @ [LF])"

fun handleUDPConnection :: "udp_step list \<Rightarrow> event list \<times> unit outcome" where
  "handleUDPConnection [] = ([ReadFrom], Blocks)"
| "handleUDPConnection (RecvErr err # rest) =
     ([ReadFrom, Printf (''Error reading from UDP connection: '' @ err @ [LF])], Returns ())"
| "handleUDPConnection (Recv payload addr wr # rest) =
     (case wr of
        Some err \<Rightarrow>
          ([ReadFrom, Printf (received_line payload addr), WriteTo ''Message received'' addr,
            Printf (''Error sending response: '' @ err @ [LF])],
           Returns ())
      | None \<Rightarrow>
          (case handleUDPConnection rest of
             (es, r) \<Rightarrow>
               (ReadFrom # Printf (received_line payload addr)
                  # WriteTo ''Message received'' addr # es, r)))"

text \<open>
  \<open>io.Copy(os.Stdout, conn)\<close>: read from the socket and write to standard output until
  the read reports the end of the stream or an error, or the write fails.
\<close>

fun io_Copy_Stdout_conn :: "conn \<Rightarrow> copy_step list \<Rightarrow> event list \<times> unit outcome" where
  "io_Copy_Stdout_conn c [] = ([ConnRead c], Blocks)"
| "io_Copy_Stdout_conn c (ReadEOF # rest) = ([ConnRead c], Returns ())"
| "io_Copy_Stdout_conn c (ReadErr err # rest) = ([ConnRead c], Returns ())"
| "io_Copy_Stdout_conn c (Chunk bytes wr # rest) =
     (case wr of
        Some err \<Rightarrow> ([ConnRead c, StdoutWrite bytes], Returns ())
      | None \<Rightarrow>
          (case io_Copy_Stdout_conn c rest of
             (es, r) \<Rightarrow> (ConnRead c # StdoutWrite bytes # es, r)))"

text \<open>
  \<open>handleTCPConnection\<close>: the copy from standard input to the socket is started with
  \<open>go\<close> and nothing of it is kept; the handler itself runs the copy from the socket to
  standard output, and the deferred \<open>conn.Close()\<close> runs when that copy has returned.
\<close>

definition handleTCPConnection :: "conn \<Rightarrow> copy_step list \<Rightarrow> event list \<times> unit outcome" where
  "handleTCPConnection c steps =
     (case io_Copy_Stdout_conn c steps of
        (es, Returns u) \<Rightarrow>
          (Printf (''Accepted connection from '' @ RemoteAddr c @ [LF])
             # Go_Copy_conn_Stdin c # es @ [ConnClose c],
           Returns ())
      | (es, Blocks) \<Rightarrow>
          (Printf (''Accepted connection from '' @ RemoteAddr c @ [LF])
             # Go_Copy_conn_Stdin c # es,
           Blocks))"

text \<open>
  The accept loop of \<open>executeNCListen\<close>: each accepted connection gets a goroutine, and
  the first error of \<open>Accept\<close> is returned.
\<close>

fun accept_loop :: "accept_result list \<Rightarrow> event list \<times> go_error option outcome" where
  "accept_loop [] = ([Accept], Blocks)"
| "accept_loop (AcceptErr err # rest) =
     ([Accept], Returns (Some (''failed to accept connection: '' @ err)))"
| "accept_loop (AcceptConn c # rest) =
     (case accept_loop rest of (es, r) \<Rightarrow> (Accept # Go_handleTCPConnection c # es, r))"

definition executeNCListen ::
    "world \<Rightarrow> string \<Rightarrow> string \<Rightarrow> event list \<times> go_error option outcome" where
  "executeNCListen w port protocol =
     (let address = JoinHostPort [] port in
      if protocol = ''tcp'' then
        (case net_Listen w ''tcp'' address of
           Some err \<Rightarrow>
             ([Listen ''tcp'' address], Returns (Some (''failed to start TCP listener: '' @ err)))
         | None \<Rightarrow>
             (case accept_loop (accepts w) of
                (es, Returns r) \<Rightarrow>
                  (Listen ''tcp'' address # Printf (''Listening on '' @ address @ '' (TCP)'' @ [LF])
                     # es @ [ListenerClose],
                   Returns r)
              | (es, Blocks) \<Rightarrow>
                  (Listen ''tcp'' address # Printf (''Listening on '' @ address @ '' (TCP)'' @ [LF])
                     # es,
                   Blocks)))
      else if protocol = ''udp'' then
        (case net_ListenPacket w ''udp'' address of
           Some err \<Rightarrow>
             ([ListenPacket ''udp'' address],
              Returns (Some (''failed to start UDP listener: '' @ err)))
         | None \<Rightarrow>
             (case handleUDPConnection (datagrams w) of
                (es, Returns u) \<Rightarrow>
                  (ListenPacket ''udp'' address
                     # Printf (''Listening on '' @ address @ '' (UDP)'' @ [LF])
                     # es @ [PacketConnClose],
                   Returns None)
              | (es, Blocks) \<Rightarrow>
                  (ListenPacket ''udp'' address
                     # Printf (''Listening on '' @ address @ '' (UDP)'' @ [LF])
                     # es,
                   Blocks)))
      else ([], Returns (Some (''unsupported protocol: '' @ protocol))))"

subsection \<open>The command\<close>

text \<open>The flags of \<open>nc\<close>, as \<open>ncCmd.Run\<close> fetches them.\<close>

record flags =
  protocol :: string
  timeout :: duration
  proxy :: string
  listen :: bool

text \<open>
  How \<open>ncCmd.Run\<close> ends: it returns, it leaves the process with \<open>os.Exit\<close>, it waits for
  ever, or it panics on an index out of range (with no argument at all, which the
  \<open>cobra.RangeArgs(1, 2)\<close> of the command excludes).
\<close>

datatype ending = Return | OsExit nat | Blocked | Panic

definition ncCmd_Run :: "world \<Rightarrow> string list \<Rightarrow> flags \<Rightarrow> event list \<times> ending" where
  "ncCmd_Run w args fl =
     (case args of
        [] \<Rightarrow> ([], Panic)
      | a0 # as \<Rightarrow>
          (let host = (if length args = 1 then [] else a0);
               port = (if length args = 1 then a0 else hd as)
           in
           if listen fl then
             (case executeNCListen w port (protocol fl) of
                (es, Blocks) \<Rightarrow> (es, Blocked)
              | (es, Returns None) \<Rightarrow> (es, Return)
              | (es, Returns (Some err)) \<Rightarrow>
                  (es @ [Printf (''Error executing nc listen: '' @ err @ [LF])], OsExit 1))
           else
             (case executeNC w host port (protocol fl) (timeout fl) (proxy fl) of
                (es, Blocks) \<Rightarrow> (es, Blocked)
              | (es, Returns None) \<Rightarrow> (es, Return)
              | (es, Returns (Some err)) \<Rightarrow>
                  (es @ [Printf (''Error executing nc: '' @ err @ [LF])], OsExit 1))))"

subsection \<open>What the claims speak of\<close>

text \<open>The lines a run prints on standard output, in order.\<close>

fun printed :: "event list \<Rightarrow> string list" where
  "printed [] = []"
| "printed (Printf s # es) = s # printed es"
| "printed (e # es) = printed es"

text \<open>
  The status line of a response: its first line, without the line end. This follows the
  words of the specification, for responses that \<open>http.ReadResponse\<close> rejects and that
  so have no \<open>Status\<close> field.
\<close>

definition status_line :: "string \<Rightarrow> string" where
  "status_line bytes = takeWhile (\<lambda>c. c \<noteq> CR \<and> c \<noteq> LF) bytes"

text \<open>
  A payload "trimmed of trailing whitespace", in the words of the specification: only
  the end of the string is trimmed.
\<close>

definition trim_trailing :: "string \<Rightarrow> string" where
  "trim_trailing s = trim_right s"

subsection \<open>A scenario\<close>

text \<open>
  A world with one HTTP proxy at \<open>proxy.example.com:8080\<close> that answers every request
  with \<open>reply\<close>, of which \<open>http.ReadResponse\<close> makes \<open>parsed\<close>. The proxy and
  \<open>example.com\<close> are reachable. At \<open>127.0.0.1:1\<close> nothing listens: a TCP dial is
  refused there, and a UDP dial, which sends nothing, succeeds. Every other dial times
  out. Of \<open>url.Parse\<close> the scenario fixes the proxy's URL and the strings that start with
  a colon, which the library rejects ("missing protocol scheme"); any other string is
  taken for a reference without a host. A listener meets \<open>acc\<close> and a packet socket
  meets \<open>dgs\<close>.
\<close>

definition scenario ::
    "string \<Rightarrow> (go_error + int \<times> unit outcome) outcome \<Rightarrow> accept_result list
       \<Rightarrow> udp_step list \<Rightarrow> world" where
  "scenario reply parsed acc dgs =
     \<lparr> url_Parse = (\<lambda>s. if s = ''http://proxy.example.com:8080''
                         then Inr \<lparr>Host = ''proxy.example.com:8080''\<rparr>
                         else if prefix '':'' s
                         then Inl (''parse '' @ [CHR 0x22] @ s @ [CHR 0x22]
                                     @ '': missing protocol scheme'')
                         else Inr \<lparr>Host = []\<rparr>),
       net_DialTimeout = (\<lambda>network address t.
                            if address = ''proxy.example.com:8080''
                            then Inr \<lparr>fd = 3, RemoteAddr = ''192.0.2.1:8080''\<rparr>
                            else if address = ''example.com:443''
                            then Inr \<lparr>fd = 3, RemoteAddr = ''192.0.2.2:443''\<rparr>
                            else if address = ''127.0.0.1:1''
                            then (if network = ''udp''
                                  then Inr \<lparr>fd = 3, RemoteAddr = ''127.0.0.1:1''\<rparr>
                                  else Inl (''dial '' @ network
                                              @ '' 127.0.0.1:1: connect: connection refused''))
                            else Inl (''dial '' @ network @ '' '' @ address @ '': i/o timeout'')),
       conn_Write = (\<lambda>c s. None),
       peer_bytes = (\<lambda>c. reply),
       net_http_read = (\<lambda>bytes. if bytes = reply then parsed
                                 else Returns (Inl ''unexpected EOF'')),
       net_Listen = (\<lambda>network address. None),
       accepts = acc,
       net_ListenPacket = (\<lambda>network address. None),
       datagrams = dgs \<rparr>"

text \<open>Responses without a body: closing the body returns at once.\<close>

definition reply_407 :: string where
  "reply_407 = ''HTTP/1.1 407 Proxy Authentication Required'' @ [CR, LF, CR, LF]"

definition parsed_407 :: "(go_error + int \<times> unit outcome) outcome" where
  "parsed_407 = Returns (Inr (407, Returns ()))"

definition reply_200 :: string where
  "reply_200 = ''HTTP/1.1 200 Connection Established'' @ [CR, LF, CR, LF]"

definition parsed_200 :: "(go_error + int \<times> unit outcome) outcome" where
  "parsed_200 = Returns (Inr (200, Returns ()))"

text \<open>
  A response that announces a body of five bytes, which the proxy does not send: the
  closing of the body waits for them.
\<close>

definition reply_200_body :: string where
  "reply_200_body = ''HTTP/1.1 200 Connection Established'' @ [CR, LF]
                      @ ''Content-Length: 5'' @ [CR, LF, CR, LF]"

definition parsed_200_body :: "(go_error + int \<times> unit outcome) outcome" where
  "parsed_200_body = Returns (Inr (200, Blocks))"

text \<open>
  A response whose first line names the protocol \<open>HTP/1.1\<close>: \<open>http.ReadResponse\<close>
  rejects it with the error "malformed HTTP version", which quotes the protocol only.
\<close>

definition reply_bad_version :: string where
  "reply_bad_version = ''HTP/1.1 200 OK'' @ [CR, LF, CR, LF]"

definition parsed_bad_version :: "(go_error + int \<times> unit outcome) outcome" where
  "parsed_bad_version =
     Returns (Inl (''malformed HTTP version '' @ [CHR 0x22] @ ''HTP/1.1'' @ [CHR 0x22]))"

lemmas client_defs =
  executeNC_def executeTCP_def executeUDP_def executeTCPProxy_def http_ReadResponse_def
  JoinHostPort_def Let_def connectReq_def

section \<open>Properties\<close>

subsection \<open>The CONNECT handshake\<close>

lemma resp_Status_of_line:
  assumes "first_line bytes = version @ '' '' @ status"
    and "CHR '' '' \<notin> set version"
    and "\<not> prefix '' '' status"
  shows "resp_Status bytes = status"
proof -
  from assms(2) have "dropWhile (\<lambda>c. c \<noteq> CHR '' '') (version @ CHR '' '' # status)
                        = CHR '' '' # status"
    by (induction version) auto
  moreover from assms(3) have "dropWhile (\<lambda>c. c = CHR '' '') status = status"
    by (cases status) auto
  ultimately show ?thesis
    unfolding resp_Status_def assms(1) by simp
qed

text \<open>
  C1. The claim fails in two ways. The error for a status other than 200 holds the status
  of the response, which is the status line without the protocol version: for the answer
  \<open>HTTP/1.1 407 Proxy Authentication Required\<close> the status line is not in the error text.
  And a response with status 200 that announces a body and does not send it is no success:
  the confirmation is printed, and the call waits for the body for ever and never
  returns.
\<close>

theorem proxy_status_line_counterexample:
  "executeNC (scenario reply_407 parsed_407 [] []) ''example.com'' ''443'' ''tcp''
      5000000000 ''http://proxy.example.com:8080''
     = ([DialTimeout ''tcp'' ''proxy.example.com:8080'' 5000000000,
         ConnWrite \<lparr>fd = 3, RemoteAddr = ''192.0.2.1:8080''\<rparr>
           (''CONNECT example.com:443 HTTP/1.1'' @ [CR, LF]
              @ ''Host: example.com:443'' @ [CR, LF, CR, LF]),
         ReadResponse \<lparr>fd = 3, RemoteAddr = ''192.0.2.1:8080''\<rparr>,
         BodyClose \<lparr>fd = 3, RemoteAddr = ''192.0.2.1:8080''\<rparr>,
         ConnClose \<lparr>fd = 3, RemoteAddr = ''192.0.2.1:8080''\<rparr>],
        Returns (Some ''proxy connection failed: 407 Proxy Authentication Required''))
   \<and> status_line reply_407 = ''HTTP/1.1 407 Proxy Authentication Required''
   \<and> \<not> sublist (status_line reply_407)
           ''proxy connection failed: 407 Proxy Authentication Required''
   \<and> executeNC (scenario reply_200_body parsed_200_body [] []) ''example.com'' ''443'' ''tcp''
        5000000000 ''http://proxy.example.com:8080''
     = ([DialTimeout ''tcp'' ''proxy.example.com:8080'' 5000000000,
         ConnWrite \<lparr>fd = 3, RemoteAddr = ''192.0.2.1:8080''\<rparr>
           (''CONNECT example.com:443 HTTP/1.1'' @ [CR, LF]
              @ ''Host: example.com:443'' @ [CR, LF, CR, LF]),
         ReadResponse \<lparr>fd = 3, RemoteAddr = ''192.0.2.1:8080''\<rparr>,
         Printf (''Connected to example.com:443 through HTTP proxy ''
                   @ ''http://proxy.example.com:8080'' @ [LF]),
         BodyClose \<lparr>fd = 3, RemoteAddr = ''192.0.2.1:8080''\<rparr>],
        Blocks)"
proof -
  have a: "resp_Status reply_407 = ''407 Proxy Authentication Required''"
    by (simp add: resp_Status_def first_line_def reply_407_def)
  have b: "status_line reply_407 = ''HTTP/1.1 407 Proxy Authentication Required''"
    by (simp add: status_line_def reply_407_def)
  have c: "\<not> sublist ''HTTP/1.1 407 Proxy Authentication Required''
             ''proxy connection failed: 407 Proxy Authentication Required''"
    by (simp add: sublist_code)
  have d: "executeNC (scenario reply_407 parsed_407 [] []) ''example.com'' ''443'' ''tcp''
      5000000000 ''http://proxy.example.com:8080''
     = ([DialTimeout ''tcp'' ''proxy.example.com:8080'' 5000000000,
         ConnWrite \<lparr>fd = 3, RemoteAddr = ''192.0.2.1:8080''\<rparr>
           (''CONNECT example.com:443 HTTP/1.1'' @ [CR, LF]
              @ ''Host: example.com:443'' @ [CR, LF, CR, LF]),
         ReadResponse \<lparr>fd = 3, RemoteAddr = ''192.0.2.1:8080''\<rparr>,
         BodyClose \<lparr>fd = 3, RemoteAddr = ''192.0.2.1:8080''\<rparr>,
         ConnClose \<lparr>fd = 3, RemoteAddr = ''192.0.2.1:8080''\<rparr>],
        Returns (Some (''proxy connection failed: '' @ resp_Status reply_407)))"
    by (simp add: client_defs scenario_def parsed_407_def)
  have e: "executeNC (scenario reply_200_body parsed_200_body [] []) ''example.com'' ''443''
      ''tcp'' 5000000000 ''http://proxy.example.com:8080''
     = ([DialTimeout ''tcp'' ''proxy.example.com:8080'' 5000000000,
         ConnWrite \<lparr>fd = 3, RemoteAddr = ''192.0.2.1:8080''\<rparr>
           (''CONNECT example.com:443 HTTP/1.1'' @ [CR, LF]
              @ ''Host: example.com:443'' @ [CR, LF, CR, LF]),
         ReadResponse \<lparr>fd = 3, RemoteAddr = ''192.0.2.1:8080''\<rparr>,
         Printf (''Connected to example.com:443 through HTTP proxy ''
                   @ ''http://proxy.example.com:8080'' @ [LF]),
         BodyClose \<lparr>fd = 3, RemoteAddr = ''192.0.2.1:8080''\<rparr>],
        Blocks)"
    by (simp add: client_defs scenario_def parsed_200_body_def)
  from b c d e show ?thesis
    unfolding a by simp
qed

text \<open>
  C1, amended. Client mode, protocol tcp, a proxy URL that is not empty and that
  \<open>url.Parse\<close> accepts; the proxy is reached and takes the request. Then the request
  written on the socket is \<open>CONNECT <target> HTTP/1.1\<close> with a \<open>Host\<close> header of the
  target, and the response is read. When the proxy sends a response that
  \<open>http.ReadResponse\<close> parses, with the status code \<open>code\<close>, and the closing of the
  response body returns, the call succeeds exactly when the code is 200, having printed
  the confirmation, and for any other code it returns the error
  "proxy connection failed: " followed by the status of the response; in both cases the
  body and the socket are closed. When the response announces a body that is not sent,
  or when the proxy sends nothing, the call never returns and the socket is not closed.
  The status of the response is the status line without the protocol version: for a first
  line made of a version without a space, a space, and a status that does not start with
  a space, it is that status (the code and the reason phrase).
\<close>

theorem proxy_connect_status:
  assumes "proxyURL \<noteq> []"
    and "url_Parse w proxyURL = Inr u"
    and "net_DialTimeout w ''tcp'' (Host u) tmo = Inr c"
    and "conn_Write w c (connectReq (JoinHostPort host port)) = None"
  shows "ConnWrite c (''CONNECT '' @ JoinHostPort host port @ '' HTTP/1.1'' @ [CR, LF]
                        @ ''Host: '' @ JoinHostPort host port @ [CR, LF, CR, LF])
           \<in> set (fst (executeNC w host port ''tcp'' tmo proxyURL))
       \<and> ReadResponse c \<in> set (fst (executeNC w host port ''tcp'' tmo proxyURL))
       \<and> (net_http_read w (peer_bytes w c) = Blocks \<longrightarrow>
            executeNC w host port ''tcp'' tmo proxyURL
              = ([DialTimeout ''tcp'' (Host u) tmo,
                  ConnWrite c (connectReq (JoinHostPort host port)),
                  ReadResponse c],
                 Blocks))
       \<and> (net_http_read w (peer_bytes w c) = Returns (Inr (code, body))
            \<and> body = Returns () \<longrightarrow>
            (snd (executeNC w host port ''tcp'' tmo proxyURL) = Returns None \<longleftrightarrow> code = 200)
            \<and> (code = 200 \<longrightarrow>
                 executeNC w host port ''tcp'' tmo proxyURL
                   = ([DialTimeout ''tcp'' (Host u) tmo,
                       ConnWrite c (connectReq (JoinHostPort host port)),
                       ReadResponse c,
                       Printf (''Connected to '' @ JoinHostPort host port
                                 @ '' through HTTP proxy '' @ proxyURL @ [LF]),
                       BodyClose c,
                       ConnClose c],
                      Returns None))
            \<and> (code \<noteq> 200 \<longrightarrow>
                 executeNC w host port ''tcp'' tmo proxyURL
                   = ([DialTimeout ''tcp'' (Host u) tmo,
                       ConnWrite c (connectReq (JoinHostPort host port)),
                       ReadResponse c,
                       BodyClose c,
                       ConnClose c],
                      Returns (Some (''proxy connection failed: ''
                                       @ resp_Status (peer_bytes w c))))))
       \<and> (net_http_read w (peer_bytes w c) = Returns (Inr (code, body))
            \<and> body = Blocks \<longrightarrow>
            snd (executeNC w host port ''tcp'' tmo proxyURL) = Blocks
            \<and> ConnClose c \<notin> set (fst (executeNC w host port ''tcp'' tmo proxyURL)))
       \<and> (first_line (peer_bytes w c) = version @ '' '' @ status
            \<and> CHR '' '' \<notin> set version \<and> \<not> prefix '' '' status \<longrightarrow>
            resp_Status (peer_bytes w c) = status)"
proof -
  let ?run = "executeNC w host port ''tcp'' tmo proxyURL"
  let ?A = "JoinHostPort host port"
  let ?line = "Printf (''Connected to '' @ ?A @ '' through HTTP proxy '' @ proxyURL @ [LF])"
  let ?err = "''proxy connection failed: '' @ resp_Status (peer_bytes w c)"
  let ?pre = "[DialTimeout ''tcp'' (Host u) tmo, ConnWrite c (connectReq ?A), ReadResponse c]"
  have req: "connectReq ?A
               = ''CONNECT '' @ ?A @ '' HTTP/1.1'' @ [CR, LF] @ ''Host: '' @ ?A @ [CR, LF, CR, LF]"
    by (simp add: connectReq_def)
  have proxy: "?run = executeTCPProxy w ?A tmo proxyURL"
    using assms(1) by (simp add: executeNC_def)
  have silent: "?run = (?pre, Blocks)" if "net_http_read w (peer_bytes w c) = Blocks"
    unfolding proxy using assms that
    by (simp add: executeTCPProxy_def http_ReadResponse_def)
  have failed: "?run = (?pre @ [ConnClose c],
                        Returns (Some (''failed to read proxy response: '' @ err)))"
    if "net_http_read w (peer_bytes w c) = Returns (Inl err)" for err
    unfolding proxy using assms that
    by (simp add: executeTCPProxy_def http_ReadResponse_def)
  have run: "?run =
      (if code \<noteq> 200 then
         (case body of
            Blocks \<Rightarrow> (?pre @ [BodyClose c], Blocks)
          | Returns x \<Rightarrow> (?pre @ [BodyClose c, ConnClose c], Returns (Some ?err)))
       else
         (case body of
            Blocks \<Rightarrow> (?pre @ [?line, BodyClose c], Blocks)
          | Returns x \<Rightarrow> (?pre @ [?line, BodyClose c, ConnClose c], Returns None)))"
    if "net_http_read w (peer_bytes w c) = Returns (Inr (code, body))"
    unfolding proxy using assms that
    by (cases body) (simp_all add: executeTCPProxy_def http_ReadResponse_def)
  have wr: "ConnWrite c (connectReq ?A) \<in> set (fst ?run)"
    and rd: "ReadResponse c \<in> set (fst ?run)"
  proof -
    consider (b) "net_http_read w (peer_bytes w c) = Blocks"
      | (e) err where "net_http_read w (peer_bytes w c) = Returns (Inl err)"
      | (r) code' body' where "net_http_read w (peer_bytes w c) = Returns (Inr (code', body'))"
    proof (cases "net_http_read w (peer_bytes w c)")
      case Blocks
      then show ?thesis using b by blast
    next
      case (Returns x)
      show ?thesis
      proof (cases x)
        case (Inl err)
        with Returns show ?thesis using e by blast
      next
        case (Inr y)
        obtain code' body' where "y = (code', body')" by (cases y)
        with Inr Returns show ?thesis using r by blast
      qed
    qed
    then have "ConnWrite c (connectReq ?A) \<in> set (fst ?run) \<and> ReadResponse c \<in> set (fst ?run)"
    proof cases
      case b
      then show ?thesis using silent by simp
    next
      case e
      then show ?thesis using failed by simp
    next
      case r
      then have "executeTCPProxy w ?A tmo proxyURL =
        (if code' \<noteq> 200 then
           (case body' of
              Blocks \<Rightarrow> (?pre @ [BodyClose c], Blocks)
            | Returns x \<Rightarrow>
                (?pre @ [BodyClose c, ConnClose c],
                 Returns (Some (''proxy connection failed: '' @ resp_Status (peer_bytes w c)))))
         else
           (case body' of
              Blocks \<Rightarrow> (?pre @ [?line, BodyClose c], Blocks)
            | Returns x \<Rightarrow> (?pre @ [?line, BodyClose c, ConnClose c], Returns None)))"
        using assms
        by (cases body') (simp_all add: executeTCPProxy_def http_ReadResponse_def)
      then show ?thesis
        unfolding proxy by (cases body') simp_all
    qed
    then show "ConnWrite c (connectReq ?A) \<in> set (fst ?run)"
      and "ReadResponse c \<in> set (fst ?run)" by simp_all
  qed
  have ok: "snd ?run = Returns None \<longleftrightarrow> code = 200"
    if "net_http_read w (peer_bytes w c) = Returns (Inr (code, body)) \<and> body = Returns ()"
    using that run by simp
  have ok200: "?run = ([DialTimeout ''tcp'' (Host u) tmo, ConnWrite c (connectReq ?A),
                        ReadResponse c, ?line, BodyClose c, ConnClose c], Returns None)"
    if "net_http_read w (peer_bytes w c) = Returns (Inr (code, body)) \<and> body = Returns ()"
      "code = 200"
    using that run by simp
  have ko: "?run = ([DialTimeout ''tcp'' (Host u) tmo, ConnWrite c (connectReq ?A),
                     ReadResponse c, BodyClose c, ConnClose c], Returns (Some ?err))"
    if "net_http_read w (peer_bytes w c) = Returns (Inr (code, body)) \<and> body = Returns ()"
      "code \<noteq> 200"
    using that run by simp
  have bl: "snd ?run = Blocks \<and> ConnClose c \<notin> set (fst ?run)"
    if "net_http_read w (peer_bytes w c) = Returns (Inr (code, body)) \<and> body = Blocks"
    using that run by simp
  have st: "resp_Status (peer_bytes w c) = status"
    if "first_line (peer_bytes w c) = version @ '' '' @ status
        \<and> CHR '' '' \<notin> set version \<and> \<not> prefix '' '' status"
    using that resp_Status_of_line by blast
  from wr rd silent ok ok200 ko bl st show ?thesis
    unfolding req by blast
qed

theorem proxy_connect_status_witness:
  "executeNC (scenario reply_407 parsed_407 [] []) ''example.com'' ''443'' ''tcp''
      5000000000 ''http://proxy.example.com:8080''
     = ([DialTimeout ''tcp'' ''proxy.example.com:8080'' 5000000000,
         ConnWrite \<lparr>fd = 3, RemoteAddr = ''192.0.2.1:8080''\<rparr>
           (connectReq ''example.com:443''),
         ReadResponse \<lparr>fd = 3, RemoteAddr = ''192.0.2.1:8080''\<rparr>,
         BodyClose \<lparr>fd = 3, RemoteAddr = ''192.0.2.1:8080''\<rparr>,
         ConnClose \<lparr>fd = 3, RemoteAddr = ''192.0.2.1:8080''\<rparr>],
        Returns (Some ''proxy connection failed: 407 Proxy Authentication Required''))
   \<and> first_line reply_407 = ''HTTP/1.1'' @ '' '' @ ''407 Proxy Authentication Required''
   \<and> snd (executeNC (scenario reply_200 parsed_200 [] []) ''example.com'' ''443'' ''tcp''
          5000000000 ''http://proxy.example.com:8080'') = Returns None"
proof -
  let ?p = "''http://proxy.example.com:8080''"
  let ?c = "\<lparr>fd = 3, RemoteAddr = ''192.0.2.1:8080''\<rparr>"
  let ?u = "\<lparr>Host = ''proxy.example.com:8080''\<rparr>"
  let ?w4 = "scenario reply_407 parsed_407 [] []"
  let ?w2 = "scenario reply_200 parsed_200 [] []"
  have p: "?p \<noteq> []" by simp
  have u4: "url_Parse ?w4 ?p = Inr ?u" by (simp add: scenario_def)
  have d4: "net_DialTimeout ?w4 ''tcp'' (Host ?u) 5000000000 = Inr ?c" by (simp add: scenario_def)
  have w4: "conn_Write ?w4 ?c (connectReq (JoinHostPort ''example.com'' ''443'')) = None"
    by (simp add: scenario_def)
  have r4: "net_http_read ?w4 (peer_bytes ?w4 ?c) = Returns (Inr (407, Returns ()))"
    by (simp add: scenario_def parsed_407_def)
  have u2: "url_Parse ?w2 ?p = Inr ?u" by (simp add: scenario_def)
  have d2: "net_DialTimeout ?w2 ''tcp'' (Host ?u) 5000000000 = Inr ?c" by (simp add: scenario_def)
  have w2: "conn_Write ?w2 ?c (connectReq (JoinHostPort ''example.com'' ''443'')) = None"
    by (simp add: scenario_def)
  have r2: "net_http_read ?w2 (peer_bytes ?w2 ?c) = Returns (Inr (200, Returns ()))"
    by (simp add: scenario_def parsed_200_def)
  have j: "JoinHostPort ''example.com'' ''443'' = ''example.com:443''"
    by (simp add: JoinHostPort_def)
  have pb: "peer_bytes ?w4 ?c = reply_407" by (simp add: scenario_def)
  have fl: "first_line reply_407 = ''HTTP/1.1'' @ '' '' @ ''407 Proxy Authentication Required''"
    by (simp add: first_line_def reply_407_def)
  have hyp: "first_line (peer_bytes ?w4 ?c)
               = ''HTTP/1.1'' @ '' '' @ ''407 Proxy Authentication Required''
             \<and> CHR '' '' \<notin> set ''HTTP/1.1''
             \<and> \<not> prefix '' '' ''407 Proxy Authentication Required''"
    unfolding pb fl by simp
  note t4 = proxy_connect_status [OF p u4 d4 w4,
      where version = "''HTTP/1.1''" and status = "''407 Proxy Authentication Required''"
        and code = 407 and body = "Returns ()"]
  have st: "resp_Status (peer_bytes ?w4 ?c) = ''407 Proxy Authentication Required''"
    using t4 hyp by blast
  have a: "executeNC ?w4 ''example.com'' ''443'' ''tcp'' 5000000000 ?p
             = ([DialTimeout ''tcp'' (Host ?u) 5000000000,
                 ConnWrite ?c (connectReq (JoinHostPort ''example.com'' ''443'')),
                 ReadResponse ?c, BodyClose ?c, ConnClose ?c],
                Returns (Some (''proxy connection failed: '' @ resp_Status (peer_bytes ?w4 ?c))))"
    using t4 r4 by simp
  have b: "snd (executeNC ?w2 ''example.com'' ''443'' ''tcp'' 5000000000 ?p) = Returns None"
    using proxy_connect_status [OF p u2 d2 w2, where code = 200 and body = "Returns ()"] r2
    by simp
  from a b fl show ?thesis
    unfolding st j by simp
qed

text \<open>
  C6. The claim, that the error for a response \<open>http.ReadResponse\<close> rejects holds the
  proxy's status line, fails: the proxy answers with the line \<open>HTP/1.1 200 OK\<close>, and the
  error text is that of the parser, with neither the status line nor its code and reason
  in it.
\<close>

theorem unparseable_response_counterexample:
  "executeNC (scenario reply_bad_version parsed_bad_version [] []) ''example.com'' ''443'' ''tcp''
      5000000000 ''http://proxy.example.com:8080''
     = ([DialTimeout ''tcp'' ''proxy.example.com:8080'' 5000000000,
         ConnWrite \<lparr>fd = 3, RemoteAddr = ''192.0.2.1:8080''\<rparr>
           (''CONNECT example.com:443 HTTP/1.1'' @ [CR, LF]
              @ ''Host: example.com:443'' @ [CR, LF, CR, LF]),
         ReadResponse \<lparr>fd = 3, RemoteAddr = ''192.0.2.1:8080''\<rparr>,
         ConnClose \<lparr>fd = 3, RemoteAddr = ''192.0.2.1:8080''\<rparr>],
        Returns (Some (''failed to read proxy response: malformed HTTP version ''
                         @ [CHR 0x22] @ ''HTP/1.1'' @ [CHR 0x22])))
   \<and> status_line reply_bad_version = ''HTP/1.1 200 OK''
   \<and> \<not> sublist (status_line reply_bad_version)
           (''failed to read proxy response: malformed HTTP version ''
              @ [CHR 0x22] @ ''HTP/1.1'' @ [CHR 0x22])
   \<and> \<not> sublist ''200 OK''
           (''failed to read proxy response: malformed HTTP version ''
              @ [CHR 0x22] @ ''HTP/1.1'' @ [CHR 0x22])"
  by (simp add: client_defs scenario_def reply_bad_version_def parsed_bad_version_def
        status_line_def sublist_code)

text \<open>
  C6, amended. When \<open>http.ReadResponse\<close> rejects the proxy's response with the error
  \<open>err\<close>, the call fails with "failed to read proxy response: " followed by \<open>err\<close>;
  it has printed nothing and has closed the socket.
\<close>

theorem unparseable_response_error:
  assumes "proxyURL \<noteq> []"
    and "url_Parse w proxyURL = Inr u"
    and "net_DialTimeout w ''tcp'' (Host u) tmo = Inr c"
    and "conn_Write w c (connectReq (JoinHostPort host port)) = None"
    and "http_ReadResponse w (peer_bytes w c) = Returns (Inl err)"
  shows "executeNC w host port ''tcp'' tmo proxyURL
           = ([DialTimeout ''tcp'' (Host u) tmo,
               ConnWrite c (connectReq (JoinHostPort host port)),
               ReadResponse c,
               ConnClose c],
              Returns (Some (''failed to read proxy response: '' @ err)))
       \<and> printed (fst (executeNC w host port ''tcp'' tmo proxyURL)) = []"
  using assms by (simp add: executeNC_def executeTCPProxy_def Let_def)

theorem unparseable_response_error_witness:
  "http_ReadResponse (scenario reply_bad_version parsed_bad_version [] [])
      (peer_bytes (scenario reply_bad_version parsed_bad_version [] [])
         \<lparr>fd = 3, RemoteAddr = ''192.0.2.1:8080''\<rparr>)
     = Returns (Inl (''malformed HTTP version '' @ [CHR 0x22] @ ''HTP/1.1'' @ [CHR 0x22]))
   \<and> snd (executeNC (scenario reply_bad_version parsed_bad_version [] []) ''example.com'' ''443''
            ''tcp'' 5000000000 ''http://proxy.example.com:8080'')
       = Returns (Some (''failed to read proxy response: malformed HTTP version ''
                          @ [CHR 0x22] @ ''HTP/1.1'' @ [CHR 0x22]))"
proof -
  let ?p = "''http://proxy.example.com:8080''"
  let ?c = "\<lparr>fd = 3, RemoteAddr = ''192.0.2.1:8080''\<rparr>"
  let ?u = "\<lparr>Host = ''proxy.example.com:8080''\<rparr>"
  let ?w = "scenario reply_bad_version parsed_bad_version [] []"
  have p: "?p \<noteq> []" by simp
  have u: "url_Parse ?w ?p = Inr ?u" by (simp add: scenario_def)
  have d: "net_DialTimeout ?w ''tcp'' (Host ?u) 5000000000 = Inr ?c" by (simp add: scenario_def)
  have wr: "conn_Write ?w ?c (connectReq (JoinHostPort ''example.com'' ''443'')) = None"
    by (simp add: scenario_def)
  have r: "http_ReadResponse ?w (peer_bytes ?w ?c)
             = Returns (Inl (''malformed HTTP version '' @ [CHR 0x22] @ ''HTP/1.1''
                               @ [CHR 0x22]))"
    by (simp add: http_ReadResponse_def scenario_def parsed_bad_version_def)
  from unparseable_response_error [OF p u d wr r] r show ?thesis by simp
qed

subsection \<open>Client mode: success, failure and configuration errors\<close>

text \<open>
  C2. The claim, that every successful client run prints a confirmation with the address
  and the protocol, fails for a connection through a proxy: the line printed there names
  the address and the proxy URL, and the protocol of the request, tcp, is in it in neither
  case.
\<close>

theorem proxy_confirmation_counterexample:
  "snd (executeNC (scenario reply_200 parsed_200 [] []) ''example.com'' ''443'' ''tcp''
          5000000000 ''http://proxy.example.com:8080'') = Returns None
   \<and> printed (fst (executeNC (scenario reply_200 parsed_200 [] []) ''example.com'' ''443''
          ''tcp'' 5000000000 ''http://proxy.example.com:8080''))
       = [''Connected to example.com:443 through HTTP proxy http://proxy.example.com:8080''
            @ [LF]]
   \<and> \<not> sublist ''tcp''
         (''Connected to example.com:443 through HTTP proxy http://proxy.example.com:8080''
            @ [LF])
   \<and> \<not> sublist ''TCP''
         (''Connected to example.com:443 through HTTP proxy http://proxy.example.com:8080''
            @ [LF])"
  by (simp add: client_defs scenario_def reply_200_def parsed_200_def sublist_code)

text \<open>
  C2, amended. A client run that succeeds, that is one that returns without an error, is
  one of three runs. Over UDP and over TCP without a proxy: the dial of the address, the
  line "Connected to <address> (UDP)" or "Connected to <address> (TCP)", and the closing
  of the socket that the dial returned. Over TCP through a proxy: the dial of the host of
  the proxy URL, the CONNECT request on the socket that the dial returned, the reading of
  the response, the line "Connected to <address> through HTTP proxy <proxy URL>", and
  the closing of the response body and of that socket. In each the address is
  \<open>JoinHostPort host port\<close>, and nothing else is written to or read from the socket.
\<close>

theorem client_success_run:
  assumes "executeNC w host port prot tmo proxyURL = (tr, Returns None)"
  shows
    "(prot = ''udp''
        \<and> (\<exists>c. net_DialTimeout w ''udp'' (JoinHostPort host port) tmo = Inr c
              \<and> tr = [DialTimeout ''udp'' (JoinHostPort host port) tmo,
                      Printf (''Connected to '' @ JoinHostPort host port @ '' (UDP)'' @ [LF]),
                      ConnClose c]))
    \<or> (prot = ''tcp'' \<and> proxyURL = []
        \<and> (\<exists>c. net_DialTimeout w ''tcp'' (JoinHostPort host port) tmo = Inr c
              \<and> tr = [DialTimeout ''tcp'' (JoinHostPort host port) tmo,
                      Printf (''Connected to '' @ JoinHostPort host port @ '' (TCP)'' @ [LF]),
                      ConnClose c]))
    \<or> (prot = ''tcp'' \<and> proxyURL \<noteq> []
        \<and> (\<exists>u c. url_Parse w proxyURL = Inr u
              \<and> net_DialTimeout w ''tcp'' (Host u) tmo = Inr c
              \<and> tr = [DialTimeout ''tcp'' (Host u) tmo,
                      ConnWrite c (connectReq (JoinHostPort host port)),
                      ReadResponse c,
                      Printf (''Connected to '' @ JoinHostPort host port
                                @ '' through HTTP proxy '' @ proxyURL @ [LF]),
                      BodyClose c,
                      ConnClose c]))"
proof -
  consider (udp) "prot = ''udp''" | (direct) "prot = ''tcp''" "proxyURL = []"
    | (via) "prot = ''tcp''" "proxyURL \<noteq> []" | (other) "prot \<noteq> ''tcp''" "prot \<noteq> ''udp''"
    by blast
  then show ?thesis
  proof cases
    case udp
    with assms have "executeUDP w (JoinHostPort host port) tmo = (tr, Returns None)"
      by (simp add: executeNC_def)
    then obtain c where "net_DialTimeout w ''udp'' (JoinHostPort host port) tmo = Inr c"
      "tr = [DialTimeout ''udp'' (JoinHostPort host port) tmo,
             Printf (''Connected to '' @ JoinHostPort host port @ '' (UDP)'' @ [LF]),
             ConnClose c]"
      by (auto simp: executeUDP_def split: sum.splits)
    with udp show ?thesis by blast
  next
    case direct
    with assms have "executeTCP w (JoinHostPort host port) tmo = (tr, Returns None)"
      by (simp add: executeNC_def)
    then obtain c where "net_DialTimeout w ''tcp'' (JoinHostPort host port) tmo = Inr c"
      "tr = [DialTimeout ''tcp'' (JoinHostPort host port) tmo,
             Printf (''Connected to '' @ JoinHostPort host port @ '' (TCP)'' @ [LF]),
             ConnClose c]"
      by (auto simp: executeTCP_def split: sum.splits)
    with direct show ?thesis by blast
  next
    case via
    with assms have
      "executeTCPProxy w (JoinHostPort host port) tmo proxyURL = (tr, Returns None)"
      by (simp add: executeNC_def)
    then obtain u c where "url_Parse w proxyURL = Inr u"
      "net_DialTimeout w ''tcp'' (Host u) tmo = Inr c"
      "tr = [DialTimeout ''tcp'' (Host u) tmo,
             ConnWrite c (connectReq (JoinHostPort host port)),
             ReadResponse c,
             Printf (''Connected to '' @ JoinHostPort host port
                       @ '' through HTTP proxy '' @ proxyURL @ [LF]),
             BodyClose c,
             ConnClose c]"
      by (auto simp: executeTCPProxy_def
               split: sum.splits option.splits if_splits outcome.splits)
    with via show ?thesis by blast
  next
    case other
    with assms show ?thesis by (simp add: executeNC_def)
  qed
qed

theorem client_success_run_witness:
  "executeNC (scenario reply_200 parsed_200 [] []) ''example.com'' ''443'' ''tcp'' 5000000000
      ''http://proxy.example.com:8080''
     = ([DialTimeout ''tcp'' ''proxy.example.com:8080'' 5000000000,
         ConnWrite \<lparr>fd = 3, RemoteAddr = ''192.0.2.1:8080''\<rparr>
           (connectReq ''example.com:443''),
         ReadResponse \<lparr>fd = 3, RemoteAddr = ''192.0.2.1:8080''\<rparr>,
         Printf (''Connected to example.com:443 through HTTP proxy ''
                   @ ''http://proxy.example.com:8080'' @ [LF]),
         BodyClose \<lparr>fd = 3, RemoteAddr = ''192.0.2.1:8080''\<rparr>,
         ConnClose \<lparr>fd = 3, RemoteAddr = ''192.0.2.1:8080''\<rparr>], Returns None)
   \<and> (\<exists>u. url_Parse (scenario reply_200 parsed_200 [] []) ''http://proxy.example.com:8080''
              = Inr u
          \<and> net_DialTimeout (scenario reply_200 parsed_200 [] []) ''tcp'' (Host u) 5000000000
              = Inr \<lparr>fd = 3, RemoteAddr = ''192.0.2.1:8080''\<rparr>)"
proof -
  let ?w = "scenario reply_200 parsed_200 [] []"
  let ?p = "''http://proxy.example.com:8080''"
  let ?c = "\<lparr>fd = 3, RemoteAddr = ''192.0.2.1:8080''\<rparr>"
  let ?tr = "[DialTimeout ''tcp'' ''proxy.example.com:8080'' 5000000000,
              ConnWrite ?c (connectReq ''example.com:443''),
              ReadResponse ?c,
              Printf (''Connected to example.com:443 through HTTP proxy '' @ ?p @ [LF]),
              BodyClose ?c,
              ConnClose ?c]"
  have run: "executeNC ?w ''example.com'' ''443'' ''tcp'' 5000000000 ?p = (?tr, Returns None)"
    by (simp add: executeNC_def executeTCPProxy_def http_ReadResponse_def JoinHostPort_def
          Let_def scenario_def reply_200_def parsed_200_def)
  from client_success_run [OF run]
  obtain u c where "url_Parse ?w ?p = Inr u"
    "net_DialTimeout ?w ''tcp'' (Host u) 5000000000 = Inr c"
    "?tr = [DialTimeout ''tcp'' (Host u) 5000000000,
            ConnWrite c (connectReq (JoinHostPort ''example.com'' ''443'')),
            ReadResponse c,
            Printf (''Connected to '' @ JoinHostPort ''example.com'' ''443''
                      @ '' through HTTP proxy '' @ ?p @ [LF]),
            BodyClose c,
            ConnClose c]"
    by auto
  then have "url_Parse ?w ?p = Inr u \<and> net_DialTimeout ?w ''tcp'' (Host u) 5000000000 = Inr ?c"
    by simp
  with run show ?thesis by blast
qed

text \<open>
  C7. The claim, that dialing an unreachable address fails, does not hold over UDP: a UDP
  dial sends nothing, so it succeeds where nothing listens. At \<open>127.0.0.1:1\<close> a TCP dial
  is refused, and over UDP the command prints the confirmation and returns without an
  error.
\<close>

theorem udp_dial_counterexample:
  "net_DialTimeout (scenario reply_200 parsed_200 [] []) ''tcp'' ''127.0.0.1:1'' 5000000000
     = Inl ''dial tcp 127.0.0.1:1: connect: connection refused''
   \<and> ncCmd_Run (scenario reply_200 parsed_200 [] []) [''127.0.0.1'', ''1'']
        \<lparr>protocol = ''udp'', timeout = 5000000000, proxy = [], listen = False\<rparr>
     = ([DialTimeout ''udp'' ''127.0.0.1:1'' 5000000000,
         Printf (''Connected to 127.0.0.1:1 (UDP)'' @ [LF]),
         ConnClose \<lparr>fd = 3, RemoteAddr = ''127.0.0.1:1''\<rparr>],
        Return)"
  by (simp add: ncCmd_Run_def executeNC_def executeUDP_def JoinHostPort_def Let_def
        scenario_def)

text \<open>
  C7, amended. Client mode without a proxy, over TCP or UDP: when the dial fails, the
  command prints an error line that holds "failed to establish" and leaves the process
  with status 1; the error \<open>executeNC\<close> returns holds the same words. The condition is
  that the dial fails: over UDP a dial sends nothing, so that nothing listens at the
  address does not make it fail.
\<close>

theorem dial_failure_exits:
  assumes "protocol fl = ''tcp'' \<and> proxy fl = [] \<or> protocol fl = ''udp''"
    and "\<not> listen fl"
    and "net_DialTimeout w (protocol fl) (JoinHostPort host port) (timeout fl) = Inl err"
  shows "\<exists>e. executeNC w host port (protocol fl) (timeout fl) (proxy fl)
               = ([DialTimeout (protocol fl) (JoinHostPort host port) (timeout fl)],
                  Returns (Some e))
           \<and> sublist ''failed to establish'' e
           \<and> ncCmd_Run w [host, port] fl
               = ([DialTimeout (protocol fl) (JoinHostPort host port) (timeout fl),
                   Printf (''Error executing nc: '' @ e @ [LF])], OsExit 1)
           \<and> sublist ''failed to establish'' (''Error executing nc: '' @ e @ [LF])"
proof -
  let ?A = "JoinHostPort host port"
  have pre: "sublist ''failed to establish'' (''failed to establish'' @ rest)" for rest :: string
    by (rule sublist_append_rightI)
  from assms(1) show ?thesis
  proof
    assume tcp: "protocol fl = ''tcp'' \<and> proxy fl = []"
    let ?e = "''failed to establish'' @ '' TCP connection: '' @ err"
    have run: "executeNC w host port (protocol fl) (timeout fl) (proxy fl)
                 = ([DialTimeout (protocol fl) ?A (timeout fl)], Returns (Some ?e))"
      using tcp assms(3) by (simp add: executeNC_def executeTCP_def)
    have cmd: "ncCmd_Run w [host, port] fl
                 = ([DialTimeout (protocol fl) ?A (timeout fl),
                     Printf (''Error executing nc: '' @ ?e @ [LF])], OsExit 1)"
      using assms(2) by (simp add: ncCmd_Run_def run del: append.simps)
    have "sublist ''failed to establish'' (''Error executing nc: '' @ ?e @ [LF])"
      using sublist_appendI [of "''failed to establish''" "''Error executing nc: ''"
          "'' TCP connection: '' @ err @ [LF]"]
      by simp
    with run cmd pre [of "'' TCP connection: '' @ err"] show ?thesis by blast
  next
    assume udp: "protocol fl = ''udp''"
    let ?e = "''failed to establish'' @ '' UDP connection: '' @ err"
    have run: "executeNC w host port (protocol fl) (timeout fl) (proxy fl)
                 = ([DialTimeout (protocol fl) ?A (timeout fl)], Returns (Some ?e))"
      using udp assms(3) by (simp add: executeNC_def executeUDP_def)
    have cmd: "ncCmd_Run w [host, port] fl
                 = ([DialTimeout (protocol fl) ?A (timeout fl),
                     Printf (''Error executing nc: '' @ ?e @ [LF])], OsExit 1)"
      using assms(2) by (simp add: ncCmd_Run_def run del: append.simps)
    have "sublist ''failed to establish'' (''Error executing nc: '' @ ?e @ [LF])"
      using sublist_appendI [of "''failed to establish''" "''Error executing nc: ''"
          "'' UDP connection: '' @ err @ [LF]"]
      by simp
    with run cmd pre [of "'' UDP connection: '' @ err"] show ?thesis by blast
  qed
qed

theorem dial_failure_exits_witness:
  "ncCmd_Run (scenario reply_200 parsed_200 [] []) [''127.0.0.1'', ''1'']
      \<lparr>protocol = ''tcp'', timeout = 5000000000, proxy = [], listen = False\<rparr>
     = ([DialTimeout ''tcp'' ''127.0.0.1:1'' 5000000000,
         Printf (''Error executing nc: failed to establish TCP connection: ''
                   @ ''dial tcp 127.0.0.1:1: connect: connection refused'' @ [LF])],
        OsExit 1)"
proof -
  let ?w = "scenario reply_200 parsed_200 [] []"
  let ?fl = "\<lparr>protocol = ''tcp'', timeout = 5000000000, proxy = [], listen = False\<rparr>"
  let ?err = "''dial tcp 127.0.0.1:1: connect: connection refused''"
  have h1: "protocol ?fl = ''tcp'' \<and> proxy ?fl = [] \<or> protocol ?fl = ''udp''" by simp
  have h2: "\<not> listen ?fl" by simp
  have h3: "net_DialTimeout ?w (protocol ?fl) (JoinHostPort ''127.0.0.1'' ''1'')
              (timeout ?fl) = Inl ?err"
    by (simp add: scenario_def JoinHostPort_def)
  from dial_failure_exits [OF h1 h2 h3] obtain e where
    e: "executeNC ?w ''127.0.0.1'' ''1'' (protocol ?fl) (timeout ?fl) (proxy ?fl)
          = ([DialTimeout (protocol ?fl) (JoinHostPort ''127.0.0.1'' ''1'') (timeout ?fl)],
             Returns (Some e))"
    and cmd: "ncCmd_Run ?w [''127.0.0.1'', ''1''] ?fl
          = ([DialTimeout (protocol ?fl) (JoinHostPort ''127.0.0.1'' ''1'') (timeout ?fl),
              Printf (''Error executing nc: '' @ e @ [LF])], OsExit 1)"
    by blast
  have "executeNC ?w ''127.0.0.1'' ''1'' (protocol ?fl) (timeout ?fl) (proxy ?fl)
          = ([DialTimeout ''tcp'' ''127.0.0.1:1'' 5000000000],
             Returns (Some (''failed to establish TCP connection: '' @ ?err)))"
    by (simp add: executeNC_def executeTCP_def JoinHostPort_def Let_def scenario_def)
  with e have "e = ''failed to establish TCP connection: '' @ ?err" by simp
  with cmd show ?thesis by (simp add: JoinHostPort_def)
qed

text \<open>
  C5. The claim, that a malformed proxy URL is rejected in every invocation before any
  socket operation, fails over UDP: \<open>url.Parse\<close> would reject the proxy URL, and the run
  dials the target and succeeds.
\<close>

theorem malformed_proxy_counterexample:
  "url_Parse (scenario reply_200 parsed_200 [] []) ''://bad''
     = Inl (''parse '' @ [CHR 0x22] @ ''://bad'' @ [CHR 0x22] @ '': missing protocol scheme'')
   \<and> executeNC (scenario reply_200 parsed_200 [] []) ''example.com'' ''443'' ''udp''
        5000000000 ''://bad''
       = ([DialTimeout ''udp'' ''example.com:443'' 5000000000,
           Printf (''Connected to example.com:443 (UDP)'' @ [LF]),
           ConnClose \<lparr>fd = 3, RemoteAddr = ''192.0.2.2:443''\<rparr>], Returns None)
   \<and> socket_op (DialTimeout ''udp'' ''example.com:443'' 5000000000)"
  by (simp add: executeNC_def executeUDP_def JoinHostPort_def Let_def scenario_def)

text \<open>
  C5, amended. A protocol string other than tcp and udp is rejected with
  "unsupported protocol: <protocol>", in client mode and in listen mode, and in client
  mode over TCP a proxy URL that is not empty and that \<open>url.Parse\<close> rejects is rejected
  with "invalid proxy URL: <error>". In these cases the functions perform no effect at
  all, and all the command does is to print the error, after "Error executing nc: " in
  client mode and "Error executing nc listen: " in listen mode, and to leave the process
  with status 1: there is no socket operation.
\<close>

theorem configuration_errors_rejected:
  "(prot \<noteq> ''tcp'' \<and> prot \<noteq> ''udp'' \<longrightarrow>
      executeNC w host port prot tmo proxyURL
        = ([], Returns (Some (''unsupported protocol: '' @ prot)))
      \<and> executeNCListen w port prot = ([], Returns (Some (''unsupported protocol: '' @ prot))))
   \<and> (proxyURL \<noteq> [] \<and> url_Parse w proxyURL = Inl err \<longrightarrow>
      executeNC w host port ''tcp'' tmo proxyURL
        = ([], Returns (Some (''invalid proxy URL: '' @ err))))
   \<and> (args \<noteq> [] \<and> protocol fl \<noteq> ''tcp'' \<and> protocol fl \<noteq> ''udp'' \<longrightarrow>
      ncCmd_Run w args fl
        = ([Printf ((if listen fl then ''Error executing nc listen: ''
                     else ''Error executing nc: '')
                      @ ''unsupported protocol: '' @ protocol fl @ [LF])],
           OsExit 1)
      \<and> \<not> list_ex socket_op (fst (ncCmd_Run w args fl)))
   \<and> (args \<noteq> [] \<and> \<not> listen fl \<and> protocol fl = ''tcp'' \<and> proxy fl \<noteq> []
        \<and> url_Parse w (proxy fl) = Inl err \<longrightarrow>
      ncCmd_Run w args fl
        = ([Printf (''Error executing nc: '' @ ''invalid proxy URL: '' @ err @ [LF])],
           OsExit 1)
      \<and> \<not> list_ex socket_op (fst (ncCmd_Run w args fl)))"
proof -
  have a: "executeNC w h p prot tmo proxyURL
             = ([], Returns (Some (''unsupported protocol: '' @ prot)))"
    if "prot \<noteq> ''tcp''" "prot \<noteq> ''udp''" for h p
    using that by (simp add: executeNC_def)
  have b: "executeNCListen w p prot = ([], Returns (Some (''unsupported protocol: '' @ prot)))"
    if "prot \<noteq> ''tcp''" "prot \<noteq> ''udp''" for p
    using that by (simp add: executeNCListen_def)
  have c: "executeNC w h p ''tcp'' tmo proxyURL
             = ([], Returns (Some (''invalid proxy URL: '' @ err)))"
    if "proxyURL \<noteq> []" "url_Parse w proxyURL = Inl err" for h p
    using that by (simp add: executeNC_def executeTCPProxy_def)
  have d: "ncCmd_Run w args fl
        = ([Printf ((if listen fl then ''Error executing nc listen: ''
                     else ''Error executing nc: '')
                      @ ''unsupported protocol: '' @ protocol fl @ [LF])],
           OsExit 1)"
    if "args \<noteq> []" "protocol fl \<noteq> ''tcp''" "protocol fl \<noteq> ''udp''"
  proof -
    from that(1) obtain a0 as where args: "args = a0 # as" by (cases args) auto
    have n: "executeNC w h p (protocol fl) t x
               = ([], Returns (Some (''unsupported protocol: '' @ protocol fl)))" for h p t x
      using that(2,3) by (simp add: executeNC_def)
    have l: "executeNCListen w p (protocol fl)
               = ([], Returns (Some (''unsupported protocol: '' @ protocol fl)))" for p
      using that(2,3) by (simp add: executeNCListen_def)
    show ?thesis
      by (simp add: ncCmd_Run_def args n l Let_def del: append.simps)
  qed
  have e: "ncCmd_Run w args fl
        = ([Printf (''Error executing nc: '' @ ''invalid proxy URL: '' @ err @ [LF])],
           OsExit 1)"
    if "args \<noteq> []" "\<not> listen fl" "protocol fl = ''tcp''" "proxy fl \<noteq> []"
      "url_Parse w (proxy fl) = Inl err"
  proof -
    from that(1) obtain a0 as where args: "args = a0 # as" by (cases args) auto
    have n: "executeNC w h p (protocol fl) (timeout fl) (proxy fl)
               = ([], Returns (Some (''invalid proxy URL: '' @ err)))" for h p
      using that(3,4,5) by (simp add: executeNC_def executeTCPProxy_def)
    show ?thesis
      using that(2) by (simp add: ncCmd_Run_def args n Let_def del: append.simps)
  qed
  show ?thesis
  proof (intro conjI impI)
    assume "prot \<noteq> ''tcp'' \<and> prot \<noteq> ''udp''"
    then show "executeNC w host port prot tmo proxyURL
                 = ([], Returns (Some (''unsupported protocol: '' @ prot)))"
      using a by blast
  next
    assume "prot \<noteq> ''tcp'' \<and> prot \<noteq> ''udp''"
    then show "executeNCListen w port prot
                 = ([], Returns (Some (''unsupported protocol: '' @ prot)))"
      using b by blast
  next
    assume "proxyURL \<noteq> [] \<and> url_Parse w proxyURL = Inl err"
    then show "executeNC w host port ''tcp'' tmo proxyURL
                 = ([], Returns (Some (''invalid proxy URL: '' @ err)))"
      using c by blast
  next
    assume h: "args \<noteq> [] \<and> protocol fl \<noteq> ''tcp'' \<and> protocol fl \<noteq> ''udp''"
    then show "ncCmd_Run w args fl
        = ([Printf ((if listen fl then ''Error executing nc listen: ''
                     else ''Error executing nc: '')
                      @ ''unsupported protocol: '' @ protocol fl @ [LF])],
           OsExit 1)"
      using d by blast
    from h d show "\<not> list_ex socket_op (fst (ncCmd_Run w args fl))"
      by simp
  next
    assume h: "args \<noteq> [] \<and> \<not> listen fl \<and> protocol fl = ''tcp'' \<and> proxy fl \<noteq> []
        \<and> url_Parse w (proxy fl) = Inl err"
    then show "ncCmd_Run w args fl
        = ([Printf (''Error executing nc: '' @ ''invalid proxy URL: '' @ err @ [LF])],
           OsExit 1)"
      using e by blast
    from h e show "\<not> list_ex socket_op (fst (ncCmd_Run w args fl))"
      by simp
  qed
qed

theorem configuration_errors_rejected_witness:
  "ncCmd_Run (scenario reply_200 parsed_200 [] []) [''example.com'', ''443'']
      \<lparr>protocol = ''foo'', timeout = 5000000000, proxy = [], listen = False\<rparr>
     = ([Printf (''Error executing nc: unsupported protocol: foo'' @ [LF])], OsExit 1)
   \<and> ncCmd_Run (scenario reply_200 parsed_200 [] []) [''9000'']
      \<lparr>protocol = ''foo'', timeout = 5000000000, proxy = [], listen = True\<rparr>
     = ([Printf (''Error executing nc listen: unsupported protocol: foo'' @ [LF])], OsExit 1)
   \<and> ncCmd_Run (scenario reply_200 parsed_200 [] []) [''example.com'', ''443'']
      \<lparr>protocol = ''tcp'', timeout = 5000000000, proxy = ''://bad'', listen = False\<rparr>
     = ([Printf (''Error executing nc: invalid proxy URL: parse '' @ [CHR 0x22] @ ''://bad''
                   @ [CHR 0x22] @ '': missing protocol scheme'' @ [LF])], OsExit 1)
   \<and> executeNC (scenario reply_200 parsed_200 [] []) ''example.com'' ''443'' ''tcp''
        5000000000 ''://bad''
     = ([], Returns (Some (''invalid proxy URL: parse '' @ [CHR 0x22] @ ''://bad''
                             @ [CHR 0x22] @ '': missing protocol scheme'')))"
proof -
  let ?w = "scenario reply_200 parsed_200 [] []"
  let ?args = "[''example.com'', ''443'']"
  let ?f1 = "\<lparr>protocol = ''foo'', timeout = 5000000000, proxy = [], listen = False\<rparr>"
  let ?f2 = "\<lparr>protocol = ''foo'', timeout = 5000000000, proxy = [], listen = True\<rparr>"
  let ?f3 = "\<lparr>protocol = ''tcp'', timeout = 5000000000, proxy = ''://bad'', listen = False\<rparr>"
  let ?err = "''parse '' @ [CHR 0x22] @ ''://bad'' @ [CHR 0x22] @ '': missing protocol scheme''"
  have h1: "?args \<noteq> [] \<and> protocol ?f1 \<noteq> ''tcp'' \<and> protocol ?f1 \<noteq> ''udp''" by simp
  have h2: "[''9000''] \<noteq> [] \<and> protocol ?f2 \<noteq> ''tcp'' \<and> protocol ?f2 \<noteq> ''udp''" by simp
  have h3: "?args \<noteq> [] \<and> \<not> listen ?f3 \<and> protocol ?f3 = ''tcp'' \<and> proxy ?f3 \<noteq> []
            \<and> url_Parse ?w (proxy ?f3) = Inl ?err"
    by (simp add: scenario_def)
  have u: "''://bad'' \<noteq> [] \<and> url_Parse ?w ''://bad'' = Inl ?err"
    by (simp add: scenario_def)
  have 1: "ncCmd_Run ?w ?args ?f1
             = ([Printf ((if listen ?f1 then ''Error executing nc listen: ''
                          else ''Error executing nc: '')
                           @ ''unsupported protocol: '' @ protocol ?f1 @ [LF])], OsExit 1)"
    using configuration_errors_rejected
      [where w = ?w and args = ?args and fl = ?f1,
       THEN conjunct2, THEN conjunct2, THEN conjunct1, rule_format, OF h1]
    by blast
  have 2: "ncCmd_Run ?w [''9000''] ?f2
             = ([Printf ((if listen ?f2 then ''Error executing nc listen: ''
                          else ''Error executing nc: '')
                           @ ''unsupported protocol: '' @ protocol ?f2 @ [LF])], OsExit 1)"
    using configuration_errors_rejected
      [where w = ?w and args = "[''9000'']" and fl = ?f2,
       THEN conjunct2, THEN conjunct2, THEN conjunct1, rule_format, OF h2]
    by blast
  have 3: "ncCmd_Run ?w ?args ?f3
             = ([Printf (''Error executing nc: '' @ ''invalid proxy URL: '' @ ?err @ [LF])],
                OsExit 1)"
    using configuration_errors_rejected
      [where w = ?w and args = ?args and fl = ?f3 and err = ?err,
       THEN conjunct2, THEN conjunct2, THEN conjunct2, rule_format, OF h3]
    by blast
  have 4: "executeNC ?w ''example.com'' ''443'' ''tcp'' 5000000000 ''://bad''
             = ([], Returns (Some (''invalid proxy URL: '' @ ?err)))"
    using configuration_errors_rejected
      [where w = ?w and host = "''example.com''" and port = "''443''" and tmo = 5000000000
         and proxyURL = "''://bad''" and err = ?err,
       THEN conjunct2, THEN conjunct1, rule_format, OF u]
    by simp
  from 1 2 3 4 show ?thesis by simp
qed

text \<open>
  C8. Over UDP the proxy URL plays no part: the run is that of \<open>executeUDP\<close> on the
  joined address, it is the same whatever \<open>url.Parse\<close> would answer and whatever the
  proxy URL is, and when the dial succeeds the run succeeds, also with a proxy URL that
  \<open>url.Parse\<close> rejects.
\<close>

theorem udp_ignores_proxy:
  "executeNC w host port ''udp'' tmo proxyURL = executeUDP w (JoinHostPort host port) tmo
   \<and> executeNC (w\<lparr>url_Parse := f\<rparr>) host port ''udp'' tmo proxyURL
       = executeNC w host port ''udp'' tmo []
   \<and> (net_DialTimeout w ''udp'' (JoinHostPort host port) tmo = Inr c \<longrightarrow>
        executeNC w host port ''udp'' tmo proxyURL
          = ([DialTimeout ''udp'' (JoinHostPort host port) tmo,
              Printf (''Connected to '' @ JoinHostPort host port @ '' (UDP)'' @ [LF]),
              ConnClose c], Returns None))"
  by (simp add: executeNC_def executeUDP_def Let_def)

theorem udp_ignores_proxy_witness:
  "url_Parse (scenario reply_200 parsed_200 [] []) '':8080''
     = Inl (''parse '' @ [CHR 0x22] @ '':8080'' @ [CHR 0x22]
              @ '': missing protocol scheme'')
   \<and> net_DialTimeout (scenario reply_200 parsed_200 [] []) ''udp''
        (JoinHostPort ''example.com'' ''443'') 1000000000
       = Inr \<lparr>fd = 3, RemoteAddr = ''192.0.2.2:443''\<rparr>
   \<and> snd (executeNC (scenario reply_200 parsed_200 [] []) ''example.com'' ''443'' ''udp''
            1000000000 '':8080'') = Returns None"
proof -
  let ?w = "scenario reply_200 parsed_200 [] []"
  let ?c = "\<lparr>fd = 3, RemoteAddr = ''192.0.2.2:443''\<rparr>"
  have u: "url_Parse ?w '':8080''
             = Inl (''parse '' @ [CHR 0x22] @ '':8080'' @ [CHR 0x22]
                      @ '': missing protocol scheme'')"
    by (simp add: scenario_def)
  have d: "net_DialTimeout ?w ''udp'' (JoinHostPort ''example.com'' ''443'') 1000000000 = Inr ?c"
    by (simp add: scenario_def JoinHostPort_def)
  from udp_ignores_proxy
    [where w = ?w and host = "''example.com''" and port = "''443''" and tmo = 1000000000
       and proxyURL = "'':8080''" and c = ?c, THEN conjunct2, THEN conjunct2,
     rule_format, OF d]
  have "snd (executeNC ?w ''example.com'' ''443'' ''udp'' 1000000000 '':8080'') = Returns None"
    by simp
  with u d show ?thesis by blast
qed

subsection \<open>Listen mode over TCP\<close>

lemma accept_loop_until_error:
  "accept_loop (map AcceptConn cs @ AcceptErr err # rest)
     = (concat (map (\<lambda>c. [Accept, Go_handleTCPConnection c]) cs) @ [Accept],
        Returns (Some (''failed to accept connection: '' @ err)))"
  by (induction cs) simp_all

text \<open>
  C3. Listen mode over TCP, the listener bound, \<open>Accept\<close> returning connections \<open>cs\<close>
  and then an error: each connection gets its goroutine, the failing \<open>Accept\<close> is the
  last one, the listener is closed and the error is returned as
  "failed to accept connection: <error>"; the command prints it and leaves the process
  with status 1. What \<open>Accept\<close> would have returned afterwards (\<open>rest\<close>) is never asked
  for.
\<close>

theorem accept_error_ends_listener:
  assumes "net_Listen w ''tcp'' (JoinHostPort [] port) = None"
    and "accepts w = map AcceptConn cs @ AcceptErr err # rest"
    and "protocol fl = ''tcp''"
    and "listen fl"
  shows "executeNCListen w port ''tcp''
           = (Listen ''tcp'' (JoinHostPort [] port)
                # Printf (''Listening on '' @ JoinHostPort [] port @ '' (TCP)'' @ [LF])
                # concat (map (\<lambda>c. [Accept, Go_handleTCPConnection c]) cs)
                @ [Accept, ListenerClose],
              Returns (Some (''failed to accept connection: '' @ err)))
       \<and> ncCmd_Run w [port] fl
           = (Listen ''tcp'' (JoinHostPort [] port)
                # Printf (''Listening on '' @ JoinHostPort [] port @ '' (TCP)'' @ [LF])
                # concat (map (\<lambda>c. [Accept, Go_handleTCPConnection c]) cs)
                @ [Accept, ListenerClose,
                   Printf (''Error executing nc listen: '' @ ''failed to accept connection: ''
                             @ err @ [LF])],
              OsExit 1)"
proof -
  have run: "executeNCListen w port ''tcp''
           = (Listen ''tcp'' (JoinHostPort [] port)
                # Printf (''Listening on '' @ JoinHostPort [] port @ '' (TCP)'' @ [LF])
                # concat (map (\<lambda>c. [Accept, Go_handleTCPConnection c]) cs)
                @ [Accept, ListenerClose],
              Returns (Some (''failed to accept connection: '' @ err)))"
    using assms(1,2)
    by (simp add: executeNCListen_def Let_def accept_loop_until_error del: accept_loop.simps)
  have cmd: "ncCmd_Run w [port] fl
           = (fst (executeNCListen w port ''tcp'')
                @ [Printf (''Error executing nc listen: '' @ ''failed to accept connection: ''
                             @ err @ [LF])],
              OsExit 1)"
    using assms(3,4) by (simp add: ncCmd_Run_def run)
  show ?thesis
    unfolding cmd unfolding run by simp
qed

theorem accept_error_ends_listener_witness:
  "ncCmd_Run
     (scenario reply_200 parsed_200
        [AcceptConn \<lparr>fd = 4, RemoteAddr = ''198.51.100.7:40000''\<rparr>,
         AcceptErr ''accept tcp [::]:9000: use of closed network connection'',
         AcceptConn \<lparr>fd = 5, RemoteAddr = ''198.51.100.8:40001''\<rparr>] [])
     [''9000''] \<lparr>protocol = ''tcp'', timeout = 5000000000, proxy = [], listen = True\<rparr>
   = ([Listen ''tcp'' '':9000'',
       Printf (''Listening on :9000 (TCP)'' @ [LF]),
       Accept,
       Go_handleTCPConnection \<lparr>fd = 4, RemoteAddr = ''198.51.100.7:40000''\<rparr>,
       Accept,
       ListenerClose,
       Printf (''Error executing nc listen: failed to accept connection: ''
                 @ ''accept tcp [::]:9000: use of closed network connection'' @ [LF])],
      OsExit 1)"
proof -
  let ?c = "\<lparr>fd = 4, RemoteAddr = ''198.51.100.7:40000''\<rparr>"
  let ?d = "\<lparr>fd = 5, RemoteAddr = ''198.51.100.8:40001''\<rparr>"
  let ?err = "''accept tcp [::]:9000: use of closed network connection''"
  let ?w = "scenario reply_200 parsed_200 [AcceptConn ?c, AcceptErr ?err, AcceptConn ?d] []"
  let ?fl = "\<lparr>protocol = ''tcp'', timeout = 5000000000, proxy = [], listen = True\<rparr>"
  have h1: "net_Listen ?w ''tcp'' (JoinHostPort [] ''9000'') = None"
    by (simp add: scenario_def)
  have h2: "accepts ?w = map AcceptConn [?c] @ AcceptErr ?err # [AcceptConn ?d]"
    by (simp add: scenario_def)
  have h3: "protocol ?fl = ''tcp''" by simp
  have h4: "listen ?fl" by simp
  from accept_error_ends_listener [OF h1 h2 h3 h4, THEN conjunct2]
  show ?thesis by (simp add: JoinHostPort_def)
qed

lemma io_Copy_never_closes: "ConnClose c \<notin> set (fst (io_Copy_Stdout_conn c steps))"
  by (induction c steps rule: io_Copy_Stdout_conn.induct) (auto split: option.splits prod.splits)

lemma io_Copy_returns_iff:
  "snd (io_Copy_Stdout_conn c steps) = Returns ()
     \<longleftrightarrow> (\<exists>s\<in>set steps. s = ReadEOF \<or> (\<exists>e. s = ReadErr e) \<or> (\<exists>b e. s = Chunk b (Some e)))"
proof (induction c steps rule: io_Copy_Stdout_conn.induct)
  case (4 c bytes wr rest)
  show ?case
  proof (cases wr)
    case None
    with 4 show ?thesis
      by (cases "io_Copy_Stdout_conn c rest") auto
  next
    case (Some e)
    then show ?thesis by auto
  qed
qed auto

text \<open>
  C9. The handler of an accepted connection starts the copy from standard input to the
  socket with \<open>go\<close>, keeping nothing of it, and runs the copy from the socket to standard
  output itself. When that copy returns, which it does exactly when the peer closes the
  socket, a read fails or a write to standard output fails, the next and last effect of
  the handler is the closing of the socket. While that copy waits, the handler has not
  closed the socket, and the copy itself never closes it.
\<close>

theorem relay_closes_socket_after_copy:
  "(snd (io_Copy_Stdout_conn c steps) = Returns () \<longrightarrow>
      handleTCPConnection c steps
        = (Printf (''Accepted connection from '' @ RemoteAddr c @ [LF])
             # Go_Copy_conn_Stdin c # fst (io_Copy_Stdout_conn c steps) @ [ConnClose c],
           Returns ()))
   \<and> (snd (io_Copy_Stdout_conn c steps) = Blocks \<longrightarrow>
        snd (handleTCPConnection c steps) = Blocks
        \<and> ConnClose c \<notin> set (fst (handleTCPConnection c steps)))
   \<and> ConnClose c \<notin> set (fst (io_Copy_Stdout_conn c steps))
   \<and> (snd (io_Copy_Stdout_conn c steps) = Returns ()
        \<longleftrightarrow> (\<exists>s\<in>set steps. s = ReadEOF \<or> (\<exists>e. s = ReadErr e) \<or> (\<exists>b e. s = Chunk b (Some e))))"
proof (intro conjI impI)
  assume "snd (io_Copy_Stdout_conn c steps) = Returns ()"
  then show "handleTCPConnection c steps
        = (Printf (''Accepted connection from '' @ RemoteAddr c @ [LF])
             # Go_Copy_conn_Stdin c # fst (io_Copy_Stdout_conn c steps) @ [ConnClose c],
           Returns ())"
    by (cases "io_Copy_Stdout_conn c steps") (simp add: handleTCPConnection_def)
next
  assume b: "snd (io_Copy_Stdout_conn c steps) = Blocks"
  then show "snd (handleTCPConnection c steps) = Blocks"
    by (cases "io_Copy_Stdout_conn c steps") (simp add: handleTCPConnection_def)
  from b have "fst (handleTCPConnection c steps)
                 = Printf (''Accepted connection from '' @ RemoteAddr c @ [LF])
                     # Go_Copy_conn_Stdin c # fst (io_Copy_Stdout_conn c steps)"
    by (cases "io_Copy_Stdout_conn c steps") (simp add: handleTCPConnection_def)
  then show "ConnClose c \<notin> set (fst (handleTCPConnection c steps))"
    using io_Copy_never_closes [of c steps] by simp
next
  show "ConnClose c \<notin> set (fst (io_Copy_Stdout_conn c steps))"
    by (rule io_Copy_never_closes)
next
  show "snd (io_Copy_Stdout_conn c steps) = Returns ()
        \<longleftrightarrow> (\<exists>s\<in>set steps. s = ReadEOF \<or> (\<exists>e. s = ReadErr e) \<or> (\<exists>b e. s = Chunk b (Some e)))"
    by (rule io_Copy_returns_iff)
qed

theorem relay_closes_socket_after_copy_witness:
  "handleTCPConnection \<lparr>fd = 4, RemoteAddr = ''198.51.100.7:40000''\<rparr>
      [Chunk ''hello'' None, ReadEOF, Chunk ''late'' None]
     = ([Printf (''Accepted connection from 198.51.100.7:40000'' @ [LF]),
         Go_Copy_conn_Stdin \<lparr>fd = 4, RemoteAddr = ''198.51.100.7:40000''\<rparr>,
         ConnRead \<lparr>fd = 4, RemoteAddr = ''198.51.100.7:40000''\<rparr>,
         StdoutWrite ''hello'',
         ConnRead \<lparr>fd = 4, RemoteAddr = ''198.51.100.7:40000''\<rparr>,
         ConnClose \<lparr>fd = 4, RemoteAddr = ''198.51.100.7:40000''\<rparr>],
        Returns ())
   \<and> snd (handleTCPConnection \<lparr>fd = 4, RemoteAddr = ''198.51.100.7:40000''\<rparr>
            [Chunk ''hello'' None]) = Blocks"
proof -
  let ?c = "\<lparr>fd = 4, RemoteAddr = ''198.51.100.7:40000''\<rparr>"
  have r: "snd (io_Copy_Stdout_conn ?c [Chunk ''hello'' None, ReadEOF, Chunk ''late'' None])
             = Returns ()"
    by simp
  have b: "snd (io_Copy_Stdout_conn ?c [Chunk ''hello'' None]) = Blocks"
    by simp
  from relay_closes_socket_after_copy
         [of ?c "[Chunk ''hello'' None, ReadEOF, Chunk ''late'' None]",
          THEN conjunct1, rule_format, OF r]
       relay_closes_socket_after_copy
         [of ?c "[Chunk ''hello'' None]", THEN conjunct2, THEN conjunct1, rule_format, OF b]
  show ?thesis by simp
qed

subsection \<open>Listen mode over UDP\<close>

lemma take_buf: "take (min (length p) buf_size) p = take buf_size p"
  by (simp add: min_def)

lemma received_line_eq:
  "received_line p a
     = ''Received '' @ itoa (min (length p) 1024) @ '' bytes from '' @ a @ '': ''
         @ TrimSpace (take 1024 p) @ [LF]"
  unfolding received_line_def Let_def take_buf by (simp add: buf_size_def)

lemma handleUDPConnection_served:
  "handleUDPConnection (map (\<lambda>(p, a). Recv p a None) ds @ steps)
     = (concat (map (\<lambda>(p, a). [ReadFrom, Printf (received_line p a),
                                WriteTo ''Message received'' a]) ds)
          @ fst (handleUDPConnection steps),
        snd (handleUDPConnection steps))"
proof (induction ds)
  case Nil
  show ?case by simp
next
  case (Cons d ds)
  obtain p a where d: "d = (p, a)" by (cases d)
  show ?case
    unfolding d using Cons.IH by (simp del: append.simps add: append_Cons)
qed

lemma space_prefix_Some:
  "space_prefix s = Some e \<Longrightarrow> e \<in> set white_space \<and> prefix e s"
  unfolding space_prefix_def by (auto simp: find_Some_iff)

lemma space_suffix_Some:
  "space_suffix s = Some e \<Longrightarrow> e \<in> set white_space \<and> suffix e s"
  unfolding space_suffix_def by (auto simp: find_Some_iff suffix_to_prefix)

lemma trim_left_removes:
  "\<exists>ls. set ls \<subseteq> set white_space \<and> s = concat ls @ trim_left s"
proof (induction s rule: trim_left.induct)
  case (1 s)
  show ?case
  proof (cases "space_prefix s")
    case None
    then have "trim_left s = s" by (simp add: trim_left.simps)
    then have "set [] \<subseteq> set white_space \<and> s = concat [] @ trim_left s" by simp
    then show ?thesis by blast
  next
    case (Some e)
    then have e: "e \<in> set white_space" "prefix e s" using space_prefix_Some by blast+
    from Some have t: "trim_left s = trim_left (drop (length e) s)"
      by (simp add: trim_left.simps)
    from 1 [OF Some] obtain ls where ls: "set ls \<subseteq> set white_space"
      "drop (length e) s = concat ls @ trim_left (drop (length e) s)" by blast
    from e(2) have "s = e @ drop (length e) s" by (auto simp: prefix_def)
    with ls(2) t have "s = concat (e # ls) @ trim_left s" by simp
    moreover from e(1) ls(1) have "set (e # ls) \<subseteq> set white_space" by simp
    ultimately show ?thesis by blast
  qed
qed

lemma trim_right_removes:
  "\<exists>rs. set rs \<subseteq> set white_space \<and> s = trim_right s @ concat rs"
proof (induction s rule: trim_right.induct)
  case (1 s)
  show ?case
  proof (cases "space_suffix s")
    case None
    then have "trim_right s = s" by (simp add: trim_right.simps)
    then have "set [] \<subseteq> set white_space \<and> s = trim_right s @ concat []" by simp
    then show ?thesis by blast
  next
    case (Some e)
    then have e: "e \<in> set white_space" "suffix e s" using space_suffix_Some by blast+
    let ?t = "take (length s - length e) s"
    from Some have t: "trim_right s = trim_right ?t" by (simp add: trim_right.simps)
    from 1 [OF Some] obtain rs where rs: "set rs \<subseteq> set white_space"
      "?t = trim_right ?t @ concat rs" by blast
    from e(2) have "s = ?t @ e" by (auto simp: suffix_def)
    then have "s = (trim_right ?t @ concat rs) @ e" using rs(2) by metis
    then have "s = trim_right s @ concat (rs @ [e])" unfolding t by simp
    moreover from e(1) rs(1) have "set (rs @ [e]) \<subseteq> set white_space" by simp
    ultimately show ?thesis by blast
  qed
qed

lemma trim_left_done: "space_prefix (trim_left s) = None"
proof (induction s rule: trim_left.induct)
  case (1 s)
  show ?case
  proof (cases "space_prefix s")
    case None
    then show ?thesis by (simp add: trim_left.simps)
  next
    case (Some e)
    with 1 [OF Some] show ?thesis by (simp add: trim_left.simps)
  qed
qed

lemma trim_right_done: "space_suffix (trim_right s) = None"
proof (induction s rule: trim_right.induct)
  case (1 s)
  show ?case
  proof (cases "space_suffix s")
    case None
    then show ?thesis by (simp add: trim_right.simps)
  next
    case (Some e)
    with 1 [OF Some] show ?thesis by (simp add: trim_right.simps)
  qed
qed

lemma space_prefix_mono:
  assumes "space_prefix u = None" and "prefix t u"
  shows "space_prefix t = None"
proof (rule ccontr)
  assume "space_prefix t \<noteq> None"
  then obtain e where "space_prefix t = Some e" by blast
  then have "e \<in> set white_space" "prefix e t" using space_prefix_Some by blast+
  with assms(2) have "e \<in> set white_space" "prefix e u" by auto
  then have "space_prefix u \<noteq> None"
    unfolding space_prefix_def by (auto simp: find_None_iff)
  with assms(1) show False by simp
qed

lemma TrimSpace_trims:
  "(\<exists>ls rs. set ls \<subseteq> set white_space \<and> set rs \<subseteq> set white_space
        \<and> s = concat ls @ TrimSpace s @ concat rs)
   \<and> space_prefix (TrimSpace s) = None \<and> space_suffix (TrimSpace s) = None"
proof -
  obtain ls where ls: "set ls \<subseteq> set white_space" "s = concat ls @ trim_left s"
    using trim_left_removes by blast
  obtain rs where rs: "set rs \<subseteq> set white_space"
    "trim_left s = trim_right (trim_left s) @ concat rs"
    using trim_right_removes by blast
  from ls(2) rs(2) have "s = concat ls @ TrimSpace s @ concat rs"
    unfolding TrimSpace_def by simp
  moreover from rs(2) have "prefix (TrimSpace s) (trim_left s)"
    unfolding TrimSpace_def by (metis prefixI)
  then have "space_prefix (TrimSpace s) = None"
    using space_prefix_mono trim_left_done by blast
  moreover have "space_suffix (TrimSpace s) = None"
    unfolding TrimSpace_def by (rule trim_right_done)
  ultimately show ?thesis using ls(1) rs(1) by blast
qed

lemma TrimSpace_ping: "TrimSpace ''ping'' = ''ping''"
  by code_simp

lemma itoa_4: "itoa (Suc (Suc (Suc (Suc 0)))) = ''4''"
proof -
  have "itoa (length ''ping'') = ''4''" by (simp add: itoa.simps digit_def)
  then show ?thesis by simp
qed

text \<open>
  C4. The claim, that the line printed for a datagram holds the payload trimmed of
  trailing white space, fails for a payload that starts with white space: for a tab,
  "ping" and a line feed the line ends in "ping", and the payload without its trailing
  white space, which keeps the tab, is not in it.
\<close>

theorem leading_space_counterexample:
  "handleUDPConnection [Recv (CHR 0x09 # ''ping'' @ [LF]) ''198.51.100.7:40000'' None]
     = ([ReadFrom,
         Printf (''Received 6 bytes from 198.51.100.7:40000: ping'' @ [LF]),
         WriteTo ''Message received'' ''198.51.100.7:40000'',
         ReadFrom], Blocks)
   \<and> trim_trailing (CHR 0x09 # ''ping'' @ [LF]) = CHR 0x09 # ''ping''
   \<and> \<not> sublist (trim_trailing (CHR 0x09 # ''ping'' @ [LF]))
         (''Received 6 bytes from 198.51.100.7:40000: ping'' @ [LF])"
proof -
  have t: "TrimSpace (CHR 0x09 # ''ping'' @ [LF]) = ''ping''"
    by code_simp
  have r: "trim_right (CHR 0x09 # ''ping'' @ [LF]) = CHR 0x09 # ''ping''"
    by code_simp
  have n: "itoa (length (CHR 0x09 # ''ping'' @ [LF])) = ''6''"
    by (simp add: itoa.simps digit_def)
  have l: "received_line (CHR 0x09 # ''ping'' @ [LF]) ''198.51.100.7:40000''
             = ''Received 6 bytes from 198.51.100.7:40000: ping'' @ [LF]"
    using n t by (simp add: received_line_def buf_size_def)
  have s: "\<not> sublist (CHR 0x09 # ''ping'')
             (''Received 6 bytes from 198.51.100.7:40000: ping'' @ [LF])"
    by (simp add: sublist_code)
  show ?thesis
    unfolding trim_trailing_def r using l s by simp
qed

text \<open>
  C4, amended. For the datagrams \<open>ds\<close>, each answered without error, the handler does
  for each in turn: a read, the line "Received <n> bytes from <sender>: <text>", where
  \<open>n\<close> is the length of the payload and at most 1024 and \<open>text\<close> is the first 1024
  bytes of the payload without their leading and their trailing white space, and the
  sending of "Message received" to the sender; then it waits for the next datagram. A
  failing read ends the handler: it prints "Error reading from UDP connection: <error>"
  and returns, and nothing that would have come later is read. \<open>TrimSpace\<close> trims both
  ends, of the white space of Unicode: a text is a run of spaces, then what \<open>TrimSpace\<close>
  leaves of it, then a run of spaces, and what is left neither starts nor ends with a
  space.
\<close>

theorem datagram_echo_turns:
  "handleUDPConnection (map (\<lambda>(p, a). Recv p a None) ds)
     = (concat (map (\<lambda>(p, a).
           [ReadFrom,
            Printf (''Received '' @ itoa (min (length p) 1024) @ '' bytes from '' @ a @ '': ''
                      @ TrimSpace (take 1024 p) @ [LF]),
            WriteTo ''Message received'' a]) ds)
          @ [ReadFrom],
        Blocks)
   \<and> handleUDPConnection (map (\<lambda>(p, a). Recv p a None) ds @ RecvErr err # rest)
     = (concat (map (\<lambda>(p, a).
           [ReadFrom,
            Printf (''Received '' @ itoa (min (length p) 1024) @ '' bytes from '' @ a @ '': ''
                      @ TrimSpace (take 1024 p) @ [LF]),
            WriteTo ''Message received'' a]) ds)
          @ [ReadFrom, Printf (''Error reading from UDP connection: '' @ err @ [LF])],
        Returns ())
   \<and> (\<exists>ls rs. set ls \<subseteq> set white_space \<and> set rs \<subseteq> set white_space
          \<and> s = concat ls @ TrimSpace s @ concat rs)
   \<and> space_prefix (TrimSpace s) = None \<and> space_suffix (TrimSpace s) = None"
proof (intro conjI)
  show "handleUDPConnection (map (\<lambda>(p, a). Recv p a None) ds)
     = (concat (map (\<lambda>(p, a).
           [ReadFrom,
            Printf (''Received '' @ itoa (min (length p) 1024) @ '' bytes from '' @ a @ '': ''
                      @ TrimSpace (take 1024 p) @ [LF]),
            WriteTo ''Message received'' a]) ds)
          @ [ReadFrom],
        Blocks)"
    using handleUDPConnection_served [of ds "[]"]
    by (simp add: received_line_eq del: append.simps)
next
  show "handleUDPConnection (map (\<lambda>(p, a). Recv p a None) ds @ RecvErr err # rest)
     = (concat (map (\<lambda>(p, a).
           [ReadFrom,
            Printf (''Received '' @ itoa (min (length p) 1024) @ '' bytes from '' @ a @ '': ''
                      @ TrimSpace (take 1024 p) @ [LF]),
            WriteTo ''Message received'' a]) ds)
          @ [ReadFrom, Printf (''Error reading from UDP connection: '' @ err @ [LF])],
        Returns ())"
    using handleUDPConnection_served [of ds "RecvErr err # rest"]
    by (simp add: received_line_eq del: append.simps)
next
  show "\<exists>ls rs. set ls \<subseteq> set white_space \<and> set rs \<subseteq> set white_space
          \<and> s = concat ls @ TrimSpace s @ concat rs"
    using TrimSpace_trims [of s] by blast
next
  show "space_prefix (TrimSpace s) = None"
    using TrimSpace_trims [of s] by blast
next
  show "space_suffix (TrimSpace s) = None"
    using TrimSpace_trims [of s] by blast
qed

theorem datagram_echo_turns_witness:
  "handleUDPConnection
     [Recv ([CHR 0xC2, CHR 0xA0] @ ''ping'' @ [LF]) ''198.51.100.7:40000'' None,
      RecvErr ''use of closed network connection'',
      Recv ''pong'' ''198.51.100.8:40001'' None]
     = ([ReadFrom,
         Printf (''Received 7 bytes from 198.51.100.7:40000: ping'' @ [LF]),
         WriteTo ''Message received'' ''198.51.100.7:40000'',
         ReadFrom,
         Printf (''Error reading from UDP connection: use of closed network connection'' @ [LF])],
        Returns ())"
proof -
  let ?ds = "[([CHR 0xC2, CHR 0xA0] @ ''ping'' @ [LF], ''198.51.100.7:40000'')]"
  have "itoa (length ''1234567'') = ''7''" by (simp add: itoa.simps digit_def)
  then have n: "itoa (Suc (Suc (Suc (Suc (Suc (Suc (Suc 0))))))) = ''7''" by simp
  have t: "TrimSpace [CHR 0xC2, CHR 0xA0, CHR ''p'', CHR ''i'', CHR ''n'', CHR ''g'', LF]
             = ''ping''"
    by code_simp
  have "handleUDPConnection (map (\<lambda>(p, a). Recv p a None) ?ds
          @ RecvErr ''use of closed network connection''
              # [Recv ''pong'' ''198.51.100.8:40001'' None])
     = (concat (map (\<lambda>(p, a).
           [ReadFrom,
            Printf (''Received '' @ itoa (min (length p) 1024) @ '' bytes from '' @ a @ '': ''
                      @ TrimSpace (take 1024 p) @ [LF]),
            WriteTo ''Message received'' a]) ?ds)
          @ [ReadFrom, Printf (''Error reading from UDP connection: ''
                                 @ ''use of closed network connection'' @ [LF])],
        Returns ())"
    using datagram_echo_turns [where ds = ?ds, THEN conjunct2, THEN conjunct1] .
  then show ?thesis
    by (simp add: n t)
qed

text \<open>
  C10. A failing \<open>WriteTo\<close> ends the handler as a failing read does: after the datagrams
  \<open>ds\<close>, each answered without error, the handler reads the next datagram, prints its
  line, tries to answer, prints "Error sending response: <error>" and returns; nothing
  that would have come later is read.
\<close>

theorem reply_failure_ends_handler:
  "handleUDPConnection (map (\<lambda>(p, a). Recv p a None) ds @ Recv payload addr (Some err) # rest)
     = (concat (map (\<lambda>(p, a). [ReadFrom, Printf (received_line p a),
                                WriteTo ''Message received'' a]) ds)
          @ [ReadFrom,
             Printf (received_line payload addr),
             WriteTo ''Message received'' addr,
             Printf (''Error sending response: '' @ err @ [LF])],
        Returns ())"
  using handleUDPConnection_served [of ds "Recv payload addr (Some err) # rest"]
  by (simp del: append.simps)

theorem reply_failure_ends_handler_witness:
  "handleUDPConnection
     [Recv ''ping'' ''198.51.100.7:40000'' (Some ''sendto: network is unreachable''),
      Recv ''pong'' ''198.51.100.8:40001'' None]
     = ([ReadFrom,
         Printf (''Received 4 bytes from 198.51.100.7:40000: ping'' @ [LF]),
         WriteTo ''Message received'' ''198.51.100.7:40000'',
         Printf (''Error sending response: sendto: network is unreachable'' @ [LF])],
        Returns ())"
proof -
  have l: "received_line ''ping'' ''198.51.100.7:40000''
             = ''Received 4 bytes from 198.51.100.7:40000: ping'' @ [LF]"
    by (simp add: received_line_eq itoa_4 TrimSpace_ping)
  from reply_failure_ends_handler
         [of "[]" "''ping''" "''198.51.100.7:40000''" "''sendto: network is unreachable''"
             "[Recv ''pong'' ''198.51.100.8:40001'' None]"]
  show ?thesis by (simp add: l)
qed

end
